theory Spec2Isabelle
  imports Complex_Main
begin

section \<open>JavaScript primitives used by the controllers\<close>

text \<open>
  The controllers are Express handlers over Mongoose models. A handler is modelled as a
  function from the database state, the values the environment supplies (the clock,
  the \<open>_id\<close> Mongoose draws for a new document) and the request, to the response and the
  database state that the handler leaves behind. A JavaScript string is modelled by the
  bytes of its UTF-8 encoding. A JavaScript number that the validators force to be an
  integer is an \<open>int\<close>, and the arithmetic on such numbers rounds as the arithmetic of
  the doubles does.
\<close>

subsection \<open>Strings\<close>

definition isDigit :: "char \<Rightarrow> bool" where
  "isDigit c = (48 \<le> (of_char c :: nat) \<and> (of_char c :: nat) \<le> 57)"

definition digitVal :: "char \<Rightarrow> nat" where
  "digitVal c = (of_char c :: nat) - 48"

definition digitChar :: "nat \<Rightarrow> char" where
  "digitChar d = ''0123456789'' ! d"

text \<open>
  \<open>String(n)\<close> and \<open>n.toString()\<close> on an integer: the decimal digits, after a minus sign
  when it is negative.
\<close>

function decimalDigits :: "int \<Rightarrow> string" where
  "decimalDigits n =
     (if n < 10 then [digitChar (nat n)]
      else decimalDigits (n div 10) @ [digitChar (nat (n mod 10))])"
  by pat_completeness auto
termination
  by (relation "measure nat") auto

declare decimalDigits.simps [simp del]

definition String_int :: "int \<Rightarrow> string" where
  "String_int i = (if i < 0 then CHR ''-'' # decimalDigits (- i) else decimalDigits i)"

text \<open>\<open>s.padStart(n, c)\<close> for a one-character pad, and \<open>s.slice(-n)\<close>.\<close>

definition padStart :: "nat \<Rightarrow> char \<Rightarrow> string \<Rightarrow> string" where
  "padStart n c s = replicate (n - length s) c @ s"

definition sliceLast :: "nat \<Rightarrow> string \<Rightarrow> string" where
  "sliceLast n s = drop (length s - n) s"

fun startsWith :: "string \<Rightarrow> string \<Rightarrow> bool" where
  "startsWith s [] = True"
| "startsWith [] (p # ps) = False"
| "startsWith (c # cs) (p # ps) = (c = p \<and> startsWith cs ps)"

text \<open>\<open>s.includes(p)\<close>.\<close>

fun str_includes :: "string \<Rightarrow> string \<Rightarrow> bool" where
  "str_includes [] p = (p = [])"
| "str_includes (c # cs) p = (startsWith (c # cs) p \<or> str_includes cs p)"

text \<open>
  White space as \<open>trim\<close> and the numeric conversions skip it: the code points (in
  hexadecimal) 9 to D, 20, A0, 1680, 2000 to 200A, 2028, 2029, 202F, 205F, 3000 and FEFF,
  which in UTF-8 are one byte, the two bytes C2 A0, or three bytes.
\<close>

definition isSpace1 :: "nat \<Rightarrow> bool" where
  "isSpace1 x = (x \<in> {9, 10, 11, 12, 13, 32})"

definition isSpace2 :: "nat \<Rightarrow> nat \<Rightarrow> bool" where
  "isSpace2 x y = (x = 0xC2 \<and> y = 0xA0)"

definition isSpace3 :: "nat \<Rightarrow> nat \<Rightarrow> nat \<Rightarrow> bool" where
  "isSpace3 x y z =
     (x = 0xE1 \<and> y = 0x9A \<and> z = 0x80
      \<or> x = 0xE2 \<and> y = 0x80 \<and> (0x80 \<le> z \<and> z \<le> 0x8A \<or> z = 0xA8 \<or> z = 0xA9 \<or> z = 0xAF)
      \<or> x = 0xE2 \<and> y = 0x81 \<and> z = 0x9F
      \<or> x = 0xE3 \<and> y = 0x80 \<and> z = 0x80
      \<or> x = 0xEF \<and> y = 0xBB \<and> z = 0xBF)"

text \<open>The number of bytes of the white-space code point at the head of a string, or 0.\<close>

definition spaceLength :: "string \<Rightarrow> nat" where
  "spaceLength s =
     (case s of
        [] \<Rightarrow> 0
      | a # r1 \<Rightarrow>
          if isSpace1 (of_char a) then 1
          else (case r1 of
                  [] \<Rightarrow> 0
                | b # r2 \<Rightarrow>
                    if isSpace2 (of_char a) (of_char b) then 2
                    else (case r2 of
                            [] \<Rightarrow> 0
                          | c # r3 \<Rightarrow>
                              if isSpace3 (of_char a) (of_char b) (of_char c) then 3 else 0)))"

text \<open>The same at the end of a string, read on the reversed string.\<close>

definition revSpaceLength :: "string \<Rightarrow> nat" where
  "revSpaceLength r =
     (case r of
        [] \<Rightarrow> 0
      | c # r1 \<Rightarrow>
          if isSpace1 (of_char c) then 1
          else (case r1 of
                  [] \<Rightarrow> 0
                | b # r2 \<Rightarrow>
                    if isSpace2 (of_char b) (of_char c) then 2
                    else (case r2 of
                            [] \<Rightarrow> 0
                          | a # r3 \<Rightarrow>
                              if isSpace3 (of_char a) (of_char b) (of_char c) then 3 else 0)))"

function trimStart :: "string \<Rightarrow> string" where
  "trimStart s = (if spaceLength s = 0 then s else trimStart (drop (spaceLength s) s))"
  by pat_completeness auto
termination
  by (relation "measure length") (auto simp: spaceLength_def split: list.splits)

declare trimStart.simps [simp del]

function revTrimStart :: "string \<Rightarrow> string" where
  "revTrimStart r = (if revSpaceLength r = 0 then r else revTrimStart (drop (revSpaceLength r) r))"
  by pat_completeness auto
termination
  by (relation "measure length") (auto simp: revSpaceLength_def split: list.splits)

declare revTrimStart.simps [simp del]

definition trimEnd :: "string \<Rightarrow> string" where
  "trimEnd s = rev (revTrimStart (rev s))"

definition trim :: "string \<Rightarrow> string" where
  "trim s = trimEnd (trimStart s)"

definition digitsValue :: "string \<Rightarrow> nat" where
  "digitsValue ds = foldl (\<lambda>a c. 10 * a + digitVal c) 0 ds"

text \<open>
  \<open>parseInt(s, 10)\<close>: leading white space, an optional sign, then the longest prefix of
  decimal digits; \<open>None\<close> is \<open>NaN\<close>.
\<close>

definition parseInt :: "string \<Rightarrow> int option" where
  "parseInt s =
     (let t = trimStart s;
          neg = (t \<noteq> [] \<and> hd t = CHR ''-'');
          u = (if t \<noteq> [] \<and> (hd t = CHR ''-'' \<or> hd t = CHR ''+'') then tl t else t);
          ds = takeWhile isDigit u
      in if ds = [] then None
         else Some (if neg then - int (digitsValue ds) else int (digitsValue ds)))"

text \<open>
  The default string order of a MongoDB sort: code unit by code unit, a proper prefix
  first.
\<close>

fun str_lt :: "string \<Rightarrow> string \<Rightarrow> bool" where
  "str_lt [] [] = False"
| "str_lt [] (y # ys) = True"
| "str_lt (x # xs) [] = False"
| "str_lt (x # xs) (y # ys) =
     (if (of_char x :: nat) < of_char y then True
      else if (of_char x :: nat) = of_char y then str_lt xs ys
      else False)"

subsection \<open>Numbers, dates and the relational comparison\<close>

text \<open>
  A JavaScript number as far as \<open>ToNumber\<close> of a string can produce one. The value of a
  numeric literal is taken exactly (no rounding to a double).
\<close>

datatype jsnum = NaN | Num rat | PosInfinity | NegInfinity

fun negate :: "jsnum \<Rightarrow> jsnum" where
  "negate NaN = NaN"
| "negate (Num q) = Num (- q)"
| "negate PosInfinity = NegInfinity"
| "negate NegInfinity = PosInfinity"

text \<open>\<open>a <= b\<close> on numbers: false as soon as one side is \<open>NaN\<close>.\<close>

fun num_le :: "jsnum \<Rightarrow> jsnum \<Rightarrow> bool" where
  "num_le NaN _ = False"
| "num_le _ NaN = False"
| "num_le NegInfinity _ = True"
| "num_le _ PosInfinity = True"
| "num_le PosInfinity _ = False"
| "num_le _ NegInfinity = False"
| "num_le (Num a) (Num b) = (a \<le> b)"

text \<open>The exponent part of a decimal literal: nothing, or \<open>e\<close>, an optional sign and digits.\<close>

definition parseExponent :: "string \<Rightarrow> int option" where
  "parseExponent r =
     (case r of
        [] \<Rightarrow> Some 0
      | c # cs \<Rightarrow>
          if c = CHR ''e'' \<or> c = CHR ''E'' then
            (let neg = (cs \<noteq> [] \<and> hd cs = CHR ''-'');
                 ds = (if cs \<noteq> [] \<and> (hd cs = CHR ''-'' \<or> hd cs = CHR ''+'') then tl cs else cs)
             in if ds \<noteq> [] \<and> list_all isDigit ds
                then Some (if neg then - int (digitsValue ds) else int (digitsValue ds))
                else None)
          else None)"

text \<open>\<open>StrUnsignedDecimalLiteral\<close>: \<open>Infinity\<close>, or digits with an optional fraction and exponent.\<close>

definition parseUnsignedDecimal :: "string \<Rightarrow> jsnum" where
  "parseUnsignedDecimal s =
     (if s = ''Infinity'' then PosInfinity
      else
        let ip = takeWhile isDigit s;
            r1 = dropWhile isDigit s;
            fp = (case r1 of [] \<Rightarrow> [] | c # r \<Rightarrow> if c = CHR ''.'' then takeWhile isDigit r else []);
            r2 = (case r1 of [] \<Rightarrow> [] | c # r \<Rightarrow> if c = CHR ''.'' then dropWhile isDigit r else r1)
        in if ip = [] \<and> fp = [] then NaN
           else (case parseExponent r2 of
                   None \<Rightarrow> NaN
                 | Some e \<Rightarrow>
                     Num (of_nat (digitsValue (ip @ fp)) * power_int 10 (e - int (length fp)))))"

definition radixDigit :: "char \<Rightarrow> nat option" where
  "radixDigit c =
     (let n = (of_char c :: nat)
      in if 48 \<le> n \<and> n \<le> 57 then Some (n - 48)
         else if 97 \<le> n \<and> n \<le> 102 then Some (n - 87)
         else if 65 \<le> n \<and> n \<le> 70 then Some (n - 55)
         else None)"

text \<open>\<open>NonDecimalIntegerLiteral\<close>: the digits after \<open>0x\<close>, \<open>0o\<close> or \<open>0b\<close>.\<close>

definition parseRadix :: "nat \<Rightarrow> string \<Rightarrow> jsnum" where
  "parseRadix b ds =
     (if ds \<noteq> [] \<and> list_all (\<lambda>c. case radixDigit c of None \<Rightarrow> False | Some d \<Rightarrow> d < b) ds
      then Num (of_nat (foldl (\<lambda>a c. b * a + (case radixDigit c of None \<Rightarrow> 0 | Some d \<Rightarrow> d)) 0 ds))
      else NaN)"

text \<open>\<open>ToNumber\<close> applied to a string (\<open>StringToNumber\<close>).\<close>

definition StringToNumber :: "string \<Rightarrow> jsnum" where
  "StringToNumber s =
     (let t = trim s
      in case t of
           [] \<Rightarrow> Num 0
         | c # cs \<Rightarrow>
             if c = CHR ''0'' \<and> cs \<noteq> [] \<and> (hd cs = CHR ''x'' \<or> hd cs = CHR ''X'') then parseRadix 16 (tl cs)
             else if c = CHR ''0'' \<and> cs \<noteq> [] \<and> (hd cs = CHR ''o'' \<or> hd cs = CHR ''O'') then parseRadix 8 (tl cs)
             else if c = CHR ''0'' \<and> cs \<noteq> [] \<and> (hd cs = CHR ''b'' \<or> hd cs = CHR ''B'') then parseRadix 2 (tl cs)
             else if c = CHR ''-'' then negate (parseUnsignedDecimal cs)
             else if c = CHR ''+'' then parseUnsignedDecimal cs
             else parseUnsignedDecimal t)"

text \<open>
  The calendar date of a time value (milliseconds since the epoch, UTC), as
  \<open>Date.prototype.toISOString\<close> prints it: \<open>YearFromTime\<close>, \<open>MonthFromTime\<close> and
  \<open>DateFromTime\<close> computed from the day number.
\<close>

definition civilFromDays :: "int \<Rightarrow> int \<times> int \<times> int" where
  "civilFromDays z =
     (let z1 = z + 719468;
          era = z1 div 146097;
          doe = z1 mod 146097;
          yoe = (doe - doe div 1460 + doe div 36524 - doe div 146096) div 365;
          y = yoe + era * 400;
          doy = doe - (365 * yoe + yoe div 4 - yoe div 100);
          mp = (5 * doy + 2) div 153;
          d = doy - (153 * mp + 2) div 5 + 1;
          m = (if mp < 10 then mp + 3 else mp - 9)
      in (if m \<le> 2 then y + 1 else y, m, d))"

definition isoYear :: "int \<Rightarrow> string" where
  "isoYear y =
     (if 0 \<le> y \<and> y \<le> 9999 then padStart 4 CHR ''0'' (String_int y)
      else (if y < 0 then CHR ''-'' else CHR ''+'') # padStart 6 CHR ''0'' (String_int \<bar>y\<bar>))"

text \<open>\<open>date.toISOString().split('T')[0]\<close>.\<close>

definition toISODate :: "int \<Rightarrow> string" where
  "toISODate t =
     (case civilFromDays (t div 86400000) of
        (y, m, d) \<Rightarrow>
          isoYear y @ ''-'' @ padStart 2 CHR ''0'' (String_int m) @ ''-''
            @ padStart 2 CHR ''0'' (String_int d))"

text \<open>The values that meet in the expiration check.\<close>

datatype jsvalue = JNull | JString string | JDate int

fun ToBoolean :: "jsvalue \<Rightarrow> bool" where
  "ToBoolean JNull = False"
| "ToBoolean (JString s) = (s \<noteq> [])"
| "ToBoolean (JDate _) = True"

fun ToNumber :: "jsvalue \<Rightarrow> jsnum" where
  "ToNumber JNull = Num 0"
| "ToNumber (JString s) = StringToNumber s"
| "ToNumber (JDate t) = Num (of_int t)"

text \<open>
  \<open>a <= b\<close>: two strings are compared as strings, anything else after \<open>ToNumber\<close>
  (a \<open>Date\<close> gives its time value).
\<close>

fun js_le :: "jsvalue \<Rightarrow> jsvalue \<Rightarrow> bool" where
  "js_le (JString a) (JString b) = (\<not> str_lt b a)"
| "js_le a b = num_le (ToNumber a) (ToNumber b)"

text \<open>
  A promise, as an \<open>async\<close> function returns it. Negating one without awaiting it
  negates an object, and every object is truthy.
\<close>

datatype 'a promise = Promise 'a

definition not_promise :: "'a promise \<Rightarrow> bool" where
  "not_promise p = False"


subsection \<open>Dates of a request\<close>

text \<open>A regular expression of fixed shape: \<open>d\<close> in the mask stands for \<open>\d\<close>.\<close>

fun matchMask :: "string \<Rightarrow> string \<Rightarrow> bool" where
  "matchMask [] [] = True"
| "matchMask (m # ms) (c # cs) =
     ((if m = CHR ''d'' then isDigit c else c = m) \<and> matchMask ms cs)"
| "matchMask _ _ = False"

definition dateRegex :: "string \<Rightarrow> bool" where
  "dateRegex s =
     (matchMask ''dddd-dd-dd'' s \<or> matchMask ''dddd-dd-ddTdd:dd:ddZ'' s
      \<or> matchMask ''dddd-dd-ddTdd:dd:dd.dddZ'' s)"

text \<open>
  A \<open>Date\<close> object: the time value of the clock, the local midnight that
  \<open>new Date(year, monthIndex, day)\<close> makes (its time value depends on the time zone of
  the server and is not computed), the instant that an ISO string with \<open>Z\<close> names, or
  \<open>Invalid Date\<close>.
\<close>

datatype jsdate =
    TimeValue int
  | LocalDate int int int
  | UtcDate int int int int int int int
  | InvalidDate

text \<open>The number written by the \<open>n\<close> digits of \<open>s\<close> from position \<open>i\<close>.\<close>

definition fieldAt :: "string \<Rightarrow> nat \<Rightarrow> nat \<Rightarrow> int" where
  "fieldAt s i n = int (digitsValue (take n (drop i s)))"

text \<open>
  \<open>new Date(s)\<close> for a string of the shape \<open>YYYY-MM-DDTHH:MM:SSZ\<close>, with or without
  milliseconds. The parser of the engine (V8) takes a month from 1 to 12, a day from 1
  to 31, and a time up to 23:59:59 or exactly 24:00:00; anything else is \<open>Invalid Date\<close>.
\<close>

definition newDateISO :: "string \<Rightarrow> jsdate" where
  "newDateISO s =
     (let year = fieldAt s 0 4; month = fieldAt s 5 2; day = fieldAt s 8 2;
          hour = fieldAt s 11 2; minute = fieldAt s 14 2; second = fieldAt s 17 2;
          ms = (if matchMask ''dddd-dd-ddTdd:dd:dd.dddZ'' s then fieldAt s 20 3 else 0)
      in if 1 \<le> month \<and> month \<le> 12 \<and> 1 \<le> day \<and> day \<le> 31
            \<and> (hour \<le> 23 \<and> minute \<le> 59 \<and> second \<le> 59
                \<or> hour = 24 \<and> minute = 0 \<and> second = 0 \<and> ms = 0)
         then UtcDate year month day hour minute second ms
         else InvalidDate)"

text \<open>
  \<open>parseLocalDate\<close> on a string that is not empty. The handlers call it only after
  \<open>dateRegex\<close> has passed, so a string of another shape does not reach it.
\<close>

definition parseLocalDate :: "string \<Rightarrow> jsdate" where
  "parseLocalDate dateString =
     (if matchMask ''dddd-dd-dd'' dateString then
        LocalDate (fieldAt dateString 0 4) (fieldAt dateString 5 2 - 1) (fieldAt dateString 8 2)
      else if dateRegex dateString then newDateISO dateString
      else InvalidDate)"

text \<open>\<open>d ? parseLocalDate(d) : new Date()\<close>, for the date of the body and the clock.\<close>

definition dateOrNow :: "string option \<Rightarrow> int \<Rightarrow> jsdate" where
  "dateOrNow d now =
     (case d of
        None \<Rightarrow> TimeValue now
      | Some dateString \<Rightarrow> if dateString = [] then TimeValue now else parseLocalDate dateString)"

subsection \<open>Arithmetic on integer-valued doubles\<close>

text \<open>
  The numbers of the controllers are doubles. A double holds every integer up to \<open>2^53\<close>
  in magnitude; beyond, a sum, difference or product is rounded to 53 significant bits,
  a tie going to the even significand. From \<open>2^1024\<close> on the result is \<open>Infinity\<close>, which
  no integer of the model stands for: \<open>finiteNumber\<close> says that a result is below.
\<close>

function bitLength :: "int \<Rightarrow> nat" where
  "bitLength n = (if n \<le> 0 then 0 else Suc (bitLength (n div 2)))"
  by pat_completeness auto
termination
  by (relation "measure nat") auto

declare bitLength.simps [simp del]

definition roundDouble :: "int \<Rightarrow> int" where
  "roundDouble x =
     (if \<bar>x\<bar> \<le> 9007199254740992 then x
      else
        let u = 2 ^ (bitLength \<bar>x\<bar> - 53);
            q = \<bar>x\<bar> div u;
            r = \<bar>x\<bar> mod u
        in sgn x * (if u < 2 * r \<or> (2 * r = u \<and> odd q) then q + 1 else q) * u)"

definition addNumber :: "int \<Rightarrow> int \<Rightarrow> int" where
  "addNumber a b = roundDouble (a + b)"

definition subNumber :: "int \<Rightarrow> int \<Rightarrow> int" where
  "subNumber a b = roundDouble (a - b)"

definition mulNumber :: "int \<Rightarrow> int \<Rightarrow> int" where
  "mulNumber a b = roundDouble (a * b)"

definition finiteNumber :: "int \<Rightarrow> bool" where
  "finiteNumber x = (\<bar>x\<bar> < 2 ^ 1024)"

section \<open>The data model\<close>

text \<open>
  A Mongoose \<open>ObjectId\<close> is a key of type \<open>oid\<close>. An identifier that arrives in a request
  is either one of these or a string that \<open>mongoose.Types.ObjectId.isValid\<close> rejects.
\<close>

type_synonym oid = nat

datatype idparam = ObjectId oid | Malformed string

fun isValid :: "idparam \<Rightarrow> bool" where
  "isValid (ObjectId _) = True"
| "isValid (Malformed _) = False"

text \<open>The \<open>status\<close> enumerations of the schemas.\<close>

datatype status = Active | Inactive

datatype branch_status = BranchActive | BranchInactive | BranchPending

datatype sale_status = Processing | Completed | Cancelled

text \<open>
  Product: the fields the sale and purchase controllers read. The schema requires
  \<open>expirationDate\<close> (a time value, in milliseconds) and rejects a negative \<open>price\<close>, so the
  one is always there and the other is a natural number (a price with a fraction is
  outside the model); \<open>stock\<close> is a number that the controllers move by integers, and
  nothing in its type keeps it from being negative.
\<close>

record product =
  p_name :: string
  price :: nat
  expirationDate :: int
  stock :: int
  p_status :: status

record customer =
  c_status :: status

record branch =
  b_status :: branch_status

record provider =
  pr_status :: status

record role =
  r_name :: string
  isDefault :: bool
  permissions :: "string list"

text \<open>An embedded line item of a sale, and the sale document.\<close>

record sale_item =
  si_product :: oid
  si_quantity :: int
  sale_price :: int
  si_total :: int

record sale =
  s_oid :: oid
  s_id :: string
  s_customer :: oid
  s_branch :: oid
  s_products :: "sale_item list"
  salesDate :: jsdate
  s_total :: int
  s_status :: sale_status

text \<open>An embedded line item of a purchase, and the purchase document.\<close>

record purchase_item =
  pi_product :: oid
  pi_quantity :: int
  purchase_price :: int
  pi_total :: int

record purchase =
  pu_oid :: oid
  pu_id :: string
  pu_provider :: oid
  pu_products :: "purchase_item list"
  purchase_date :: jsdate
  pu_total :: int
  pu_status :: status
  deactivation_reason :: "string option"
  deactivated_at :: "int option"
  deactivated_by :: "oid option"
  reactivation_reason :: "string option"
  reactivated_at :: "int option"
  reactivated_by :: "oid option"

text \<open>
  The database: the collections the controllers touch. Sales and purchases are kept in
  insertion order, since the allocator sorts them.
\<close>

record db =
  products :: "oid \<rightharpoonup> product"
  customers :: "oid \<rightharpoonup> customer"
  branches :: "oid \<rightharpoonup> branch"
  providers :: "oid \<rightharpoonup> provider"
  roles :: "oid \<rightharpoonup> role"
  sales :: "sale list"
  purchases :: "purchase list"

text \<open>\<open>req.user\<close>, as the authentication middleware leaves it.\<close>

record user =
  u_id :: oid
  u_role :: oid

text \<open>What a handler sends: the HTTP status and the \<open>message\<close> of the JSON body.\<close>

datatype response = Response (res_status: nat) (res_message: string)

text \<open>What a handler's \<open>try\<close> block can throw.\<close>

datatype exn =
    Error string
  | CastError
  | ValidationError string
  | DuplicateKey string

fun exn_message :: "exn \<Rightarrow> string" where
  "exn_message (Error m) = m"
| "exn_message CastError = ''Cast to ObjectId failed''"
| "exn_message (ValidationError m) = m"
| "exn_message (DuplicateKey f) = ''E11000 duplicate key error index: '' @ f @ ''_1''"

section \<open>Permissions\<close>

definition ALL_PERMISSIONS :: "string list" where
  "ALL_PERMISSIONS =
    [''view_roles'', ''view_roles_id'', ''create_roles'', ''update_roles'', ''delete_roles'',
     ''update_role_status'',
     ''create_users'', ''view_users'', ''view_users_id'', ''update_users'', ''delete_users'',
     ''update_user_status'',
     ''view_categories'', ''view_categories_id'', ''create_categories'', ''update_categories'',
     ''delete_categories'', ''update_status_categories'',
     ''view_providers'', ''view_providers_id'', ''create_providers'', ''update_providers'',
     ''delete_providers'', ''update_status_providers'',
     ''view_products'', ''view_products_id'', ''create_products'', ''edit_products'',
     ''delete_products'', ''update_status_products'', ''update_stock_products'',
     ''view_purchases'', ''view_purchases_id'', ''create_purchases'', ''delete_purchases'',
     ''update_status_purchases'', ''reactivate_purchases'',
     ''view_branches'', ''create_branches'', ''update_branches'', ''delete_branches'',
     ''update_status_branches'', ''edit_branches'',
     ''view_customers'', ''view_customers_id'', ''create_customers'', ''update_customers'',
     ''delete_customers'', ''update_customers_status'',
     ''view_sales'', ''view_sales_id'', ''create_sales'', ''delete_sales'', ''update_status_sales'',
     ''view_permissions'', ''view_permissions_id'', ''create_permissions'',
     ''update_permissions'', ''delete_permissions'', ''update_permission_status'']"

definition DEFAULT_PERMISSIONS :: "string \<Rightarrow> string list option" where
  "DEFAULT_PERMISSIONS name =
    (if name = ''admin'' then Some ALL_PERMISSIONS
     else if name = ''assistant'' then Some
       [''view_roles'', ''view_users'', ''view_users_id'',
        ''view_categories'', ''view_categories_id'', ''create_categories'',
        ''update_status_categories'',
        ''view_providers'', ''view_providers_id'', ''create_providers'', ''update_providers'',
        ''update_status_providers'',
        ''view_products'', ''view_products_id'', ''create_products'', ''edit_products'',
        ''delete_products'', ''update_status_products'', ''update_stock_products'',
        ''view_purchases'', ''view_purchases_id'', ''create_purchases'',
        ''update_status_purchases'',
        ''view_customers'', ''view_customers_id'', ''create_customers'', ''update_customers'',
        ''view_sales'', ''view_sales_id'', ''create_sales'']
     else if name = ''employee'' then Some
       [''view_categories'',
        ''view_products'', ''view_products_id'', ''create_products'', ''edit_products'',
        ''delete_products'', ''update_status_products'', ''update_stock_products'',
        ''view_customers'', ''view_customers_id'',
        ''view_sales'', ''view_sales_id'', ''create_sales'']
     else None)"

text \<open>
  The property names that the table inherits from \<open>Object.prototype\<close>. For a default role
  of such a name \<open>DEFAULT_PERMISSIONS[role.name]\<close> is truthy and no array, the call of
  \<open>includes\<close> throws, and the \<open>catch\<close> block of \<open>checkPermission\<close> returns false.
\<close>

definition inheritedKeys :: "string list" where
  "inheritedKeys =
     [''constructor'', ''__defineGetter__'', ''__defineSetter__'', ''hasOwnProperty'',
      ''__lookupGetter__'', ''__lookupSetter__'', ''isPrototypeOf'', ''propertyIsEnumerable'',
      ''toString'', ''valueOf'', ''__proto__'', ''toLocaleString'']"

text \<open>
  What the promise of \<open>checkPermission\<close> resolves to: the role is looked up, a default
  role is answered from the static table, any other from its own permission codes.
\<close>

definition hasPermission :: "(oid \<rightharpoonup> role) \<Rightarrow> oid \<Rightarrow> string \<Rightarrow> bool" where
  "hasPermission rs roleId permissionCode =
     (case rs roleId of
        None \<Rightarrow> False
      | Some r \<Rightarrow>
          if isDefault r \<and> r_name r \<in> set inheritedKeys then False
          else
            (case (if isDefault r then DEFAULT_PERMISSIONS (r_name r) else None) of
               Some codes \<Rightarrow> permissionCode \<in> set codes
             | None \<Rightarrow> permissions r \<noteq> [] \<and> permissionCode \<in> set (permissions r)))"

text \<open>\<open>checkPermission\<close> is declared \<open>async\<close>: a call returns the promise.\<close>

definition checkPermission :: "(oid \<rightharpoonup> role) \<Rightarrow> oid \<Rightarrow> string \<Rightarrow> bool promise" where
  "checkPermission rs roleId permissionCode = Promise (hasPermission rs roleId permissionCode)"

section \<open>The identifier allocator\<close>

text \<open>\<open>Model.findOne().sort({ id: -1 }).select('id')\<close>: the greatest display id, if any.\<close>

fun lastId :: "string list \<Rightarrow> string option" where
  "lastId [] = None"
| "lastId (x # xs) =
     (case lastId xs of
        None \<Rightarrow> Some x
      | Some m \<Rightarrow> if str_lt x m then Some m else Some x)"

text \<open>The test \<open>/^Sa\d{2}$/\<close> (and \<open>/^Pu\d{2}$/\<close>), for the two-letter prefix given.\<close>

definition testPrefix2Digits :: "string \<Rightarrow> string \<Rightarrow> bool" where
  "testPrefix2Digits prefix s =
     (length s = length prefix + 2 \<and> take (length prefix) s = prefix
      \<and> list_all isDigit (drop (length prefix) s))"

definition candidateId :: "string \<Rightarrow> int \<Rightarrow> string" where
  "candidateId prefix n = prefix @ padStart 2 CHR ''0'' (String_int n)"

text \<open>The fallback \<open>Date.now().toString().slice(-4)\<close>.\<close>

definition timestampId :: "string \<Rightarrow> int \<Rightarrow> string" where
  "timestampId prefix now = prefix @ sliceLast 4 (String_int now)"

text \<open>\<open>findNextAvailableSaleId\<close> and \<open>findNextAvailableId\<close>: the first free number from 1 to 99.\<close>

definition findNextAvailable :: "string \<Rightarrow> string list \<Rightarrow> int \<Rightarrow> string" where
  "findNextAvailable prefix ids now =
     (case find (\<lambda>i. candidateId prefix (int i) \<notin> set ids) [1 ..< 100] of
        Some i \<Rightarrow> candidateId prefix (int i)
      | None \<Rightarrow> timestampId prefix now)"

text \<open>The \<open>while (attempts < maxAttempts)\<close> loop of the allocator.\<close>

function scanFrom :: "string \<Rightarrow> string list \<Rightarrow> int \<Rightarrow> nat \<Rightarrow> string option" where
  "scanFrom prefix ids nextNumber attempts =
     (if attempts < 100 then
        (if candidateId prefix nextNumber \<notin> set ids then Some (candidateId prefix nextNumber)
         else scanFrom prefix ids (nextNumber + 1) (attempts + 1))
      else None)"
  by pat_completeness auto
termination
  by (relation "measure (\<lambda>(prefix, ids, nextNumber, attempts). 100 - attempts)") auto

declare scanFrom.simps [simp del]

text \<open>
  \<open>generateSaleId\<close> and \<open>generatePurchaseId\<close> are the same function up to the prefix and
  the collection; \<open>ids\<close> are the display ids of the collection's documents. The queries
  do not fail in this model, so the \<open>catch\<close> branch of the allocator is not reached. When
  \<open>parseInt\<close> gives \<open>NaN\<close> every candidate of the loop is the same string \<open>NaN\<close>.
\<close>

definition generateId :: "string \<Rightarrow> string list \<Rightarrow> int \<Rightarrow> string" where
  "generateId prefix ids now =
     (case lastId ids of
        None \<Rightarrow>
          if prefix @ ''01'' \<in> set ids then findNextAvailable prefix ids now
          else prefix @ ''01''
      | Some l \<Rightarrow>
          if l = [] \<or> \<not> testPrefix2Digits prefix l then
            (if prefix @ ''01'' \<in> set ids then findNextAvailable prefix ids now
             else prefix @ ''01'')
          else
            (case parseInt (drop 2 l) of
               None \<Rightarrow>
                 if prefix @ ''NaN'' \<notin> set ids then prefix @ ''NaN'' else timestampId prefix now
             | Some lastNumber \<Rightarrow>
                 (case scanFrom prefix ids (lastNumber + 1) 0 of
                    Some c \<Rightarrow> c
                  | None \<Rightarrow> timestampId prefix now)))"

definition generateSaleId :: "sale list \<Rightarrow> int \<Rightarrow> string" where
  "generateSaleId ss now = generateId ''Sa'' (map s_id ss) now"

definition generatePurchaseId :: "purchase list \<Rightarrow> int \<Rightarrow> string" where
  "generatePurchaseId ps now = generateId ''Pu'' (map pu_id ps) now"


section \<open>The stock ledger\<close>

text \<open>
  \<open>Product.findByIdAndUpdate(id, { $inc: { stock: n } }, ...)\<close>: the stored number moves by
  \<open>n\<close>, in the arithmetic of the doubles; a missing product is left missing. Update
  validators do not look at \<open>$inc\<close>, so the option \<open>runValidators\<close> changes nothing here.
\<close>

definition incStock :: "(oid \<rightharpoonup> product) \<Rightarrow> oid \<Rightarrow> int \<Rightarrow> (oid \<rightharpoonup> product)" where
  "incStock ps k n =
     (case ps k of
        None \<Rightarrow> ps
      | Some p \<Rightarrow> ps(k \<mapsto> p\<lparr>stock := addNumber (stock p) n\<rparr>))"

text \<open>
  \<open>product.save()\<close> runs the schema validators; the one that can fail on a stored product
  is the validator of \<open>stock\<close>, \<open>Number.isInteger(v) && v >= 0\<close>, which a negative number
  and \<open>Infinity\<close> fail.
\<close>

definition saveProduct :: "product \<Rightarrow> exn + product" where
  "saveProduct p =
     (if 0 \<le> stock p \<and> finiteNumber (stock p) then Inr p
      else Inl (ValidationError ''Product validation failed: stock''))"

text \<open>\<open>this.stock += quantity\<close> and \<open>this.stock -= quantity\<close>, each followed by \<open>save\<close>.\<close>

definition incrementStock :: "product \<Rightarrow> int \<Rightarrow> exn + product" where
  "incrementStock p quantity = saveProduct (p\<lparr>stock := addNumber (stock p) quantity\<rparr>)"

definition decrementStock :: "product \<Rightarrow> int \<Rightarrow> exn + product" where
  "decrementStock p quantity =
     (if stock p < quantity then Inl (Error ''Insufficient stock'')
      else saveProduct (p\<lparr>stock := subNumber (stock p) quantity\<rparr>))"

section \<open>The sale controller\<close>

text \<open>
  The body of a request. A quantity is a JSON number; the model has the integers, and
  the test that refuses a quantity that is no positive integer refuses the integers
  below 1.
\<close>

record sale_line =
  sl_product :: idparam
  sl_quantity :: int

record sale_body =
  sb_products :: "sale_line list"
  sb_customer :: "idparam option"
  sb_branch :: "idparam option"
  sb_salesDate :: "string option"

text \<open>An identifier of the body is falsy when it is absent or the empty string.\<close>

fun falsyId :: "idparam option \<Rightarrow> bool" where
  "falsyId None = True"
| "falsyId (Some (Malformed s)) = (s = [])"
| "falsyId (Some (ObjectId _)) = False"

definition validateSaleData :: "sale_body \<Rightarrow> string list" where
  "validateSaleData data =
     (if sb_products data = [] then [''At least one product is required''] else [])
     @ (if falsyId (sb_customer data) then [''Customer is required''] else [])
     @ (if falsyId (sb_branch data) then [''Branch is required''] else [])
     @ (case sb_customer data of
          Some c \<Rightarrow> if \<not> falsyId (Some c) \<and> \<not> isValid c then [''Invalid customer ID format''] else []
        | None \<Rightarrow> [])
     @ (case sb_branch data of
          Some b \<Rightarrow> if \<not> falsyId (Some b) \<and> \<not> isValid b then [''Invalid branch ID format''] else []
        | None \<Rightarrow> [])
     @ concat (map (\<lambda>(index, item).
          (if \<not> isValid (sl_product item)
           then [''Invalid product ID at index '' @ String_int (int index)] else [])
          @ (if sl_quantity item \<le> 0
             then [''Invalid quantity at index '' @ String_int (int index) @ ''. Must be a positive integer'']
             else []))
        (enumerate 0 (sb_products data)))
     @ (case sb_salesDate data of
          Some d \<Rightarrow> if \<not> dateRegex d then [''Invalid date format. Use YYYY-MM-DD or ISO format''] else []
        | None \<Rightarrow> [])"

text \<open>The entries of \<open>validatedProducts\<close>.\<close>

record validated_item =
  v_product :: oid
  v_quantity :: int
  v_sale_price :: int
  v_total :: int
  v_productName :: string

text \<open>
  Reading \<open>foundProduct.expirationDate\<close> goes through the getter of the schema path, which
  returns the calendar date as a string.
\<close>

definition get_expirationDate :: "product \<Rightarrow> jsvalue" where
  "get_expirationDate p = JString (toISODate (expirationDate p))"

text \<open>
  The loop of \<open>validateProductsAvailability\<close>, from index \<open>i\<close> on, with the items and the
  total collected so far. \<open>new Date()\<close> is the time value \<open>now\<close>.
\<close>

fun validateFrom ::
  "(oid \<rightharpoonup> product) \<Rightarrow> int \<Rightarrow> nat \<Rightarrow> sale_line list \<Rightarrow> validated_item list \<Rightarrow> int
     \<Rightarrow> exn + (validated_item list \<times> int)" where
  "validateFrom ps now i [] validatedProducts tot = Inr (validatedProducts, tot)"
| "validateFrom ps now i (item # rest) validatedProducts tot =
     (case sl_product item of
        Malformed _ \<Rightarrow> Inl (Error (''Invalid product ID format at index '' @ String_int (int i)))
      | ObjectId k \<Rightarrow>
          (case ps k of
             None \<Rightarrow> Inl (Error (''Product not found at index '' @ String_int (int i)))
           | Some foundProduct \<Rightarrow>
               if p_status foundProduct \<noteq> Active then
                 Inl (Error (''Cannot sell inactive product \"'' @ p_name foundProduct
                               @ ''\" at index '' @ String_int (int i)))
               else if stock foundProduct < sl_quantity item then
                 Inl (Error (''Insufficient stock for product \"'' @ p_name foundProduct
                               @ ''\". Available: '' @ String_int (stock foundProduct)
                               @ '', Requested: '' @ String_int (sl_quantity item)))
               else if ToBoolean (get_expirationDate foundProduct)
                       \<and> js_le (get_expirationDate foundProduct) (JDate now) then
                 Inl (Error (''Product \"'' @ p_name foundProduct
                               @ ''\" has expired and cannot be sold''))
               else
                 (let salePrice = int (price foundProduct);
                      itemTotal = mulNumber salePrice (sl_quantity item)
                  in validateFrom ps now (i + 1) rest
                       (validatedProducts @
                          [\<lparr>v_product = k, v_quantity = sl_quantity item, v_sale_price = salePrice,
                            v_total = itemTotal, v_productName = p_name foundProduct\<rparr>])
                       (addNumber tot itemTotal))))"

definition validateProductsAvailability ::
  "(oid \<rightharpoonup> product) \<Rightarrow> int \<Rightarrow> sale_line list \<Rightarrow> exn + (validated_item list \<times> int)" where
  "validateProductsAvailability ps now items = validateFrom ps now 0 items [] 0"

text \<open>The reservation loop of \<open>postSale\<close>.\<close>

fun reserveStock :: "(oid \<rightharpoonup> product) \<Rightarrow> validated_item list \<Rightarrow> (oid \<rightharpoonup> product)" where
  "reserveStock ps [] = ps"
| "reserveStock ps (item # rest) = reserveStock (incStock ps (v_product item) (- v_quantity item)) rest"

text \<open>
  \<open>newSale.save()\<close>: the casts and validators of the schema (an \<open>Invalid Date\<close> is no
  date; the total is an integer that is not negative), the unique indexes, then the
  \<open>pre('save')\<close> hook that sets the total to the sum of the line totals.
\<close>

definition saleValid :: "sale \<Rightarrow> bool" where
  "saleValid s =
     (list_all (\<lambda>item. 0 < si_quantity item \<and> 0 \<le> sale_price item) (s_products s)
      \<and> salesDate s \<noteq> InvalidDate
      \<and> 0 \<le> s_total s \<and> finiteNumber (s_total s))"

definition saveSale :: "sale list \<Rightarrow> sale \<Rightarrow> exn + sale list" where
  "saveSale ss s =
     (if \<not> saleValid s then Inl (ValidationError ''Sale validation failed'')
      else if s_oid s \<in> set (map s_oid ss) then Inl (DuplicateKey ''_id'')
      else if s_id s \<in> set (map s_id ss) then Inl (DuplicateKey ''id'')
      else Inr (ss @ [s\<lparr>s_total := foldl addNumber 0 (map si_total (s_products s))\<rparr>]))"

text \<open>The \<open>catch\<close> block of \<open>postSale\<close>.\<close>

definition postSale_catch :: "exn \<Rightarrow> response" where
  "postSale_catch e =
     (if e = DuplicateKey ''id'' then Response 409 ''Sale ID conflict, please try again''
      else if str_includes (exn_message e) ''Invalid product''
              \<or> str_includes (exn_message e) ''not found''
              \<or> str_includes (exn_message e) ''Insufficient stock''
              \<or> str_includes (exn_message e) ''expired''
      then Response 400 (exn_message e)
      else Response 500 ''Server error'')"

text \<open>
  \<open>postSale\<close>. Once \<open>validateSaleData\<close> has passed, the customer and the branch of the body
  are \<open>ObjectId\<close>s, so the last case below is not reached.
\<close>

definition postSale :: "db \<Rightarrow> int \<Rightarrow> oid \<Rightarrow> user \<Rightarrow> sale_body \<Rightarrow> response \<times> db" where
  "postSale d now newOid u body =
     (if not_promise (checkPermission (roles d) (u_role u) ''create_sales'') then
        (Response 403 ''Unauthorized access'', d)
      else if validateSaleData body \<noteq> [] then (Response 400 ''Validation error'', d)
      else
        (case (sb_customer body, sb_branch body) of
           (Some (ObjectId customer), Some (ObjectId branch)) \<Rightarrow>
             (case customers d customer of
                None \<Rightarrow> (Response 404 ''Customer not found'', d)
              | Some existingCustomer \<Rightarrow>
                  if c_status existingCustomer \<noteq> Active then
                    (Response 400 ''Cannot create sale for inactive customer'', d)
                  else
                    (case branches d branch of
                       None \<Rightarrow> (Response 404 ''Branch not found'', d)
                     | Some existingBranch \<Rightarrow>
                         if b_status existingBranch \<noteq> BranchActive then
                           (Response 400 ''Cannot create sale for inactive branch'', d)
                         else
                           (case validateProductsAvailability (products d) now (sb_products body) of
                              Inl e \<Rightarrow> (postSale_catch e, d)
                            | Inr (validatedProducts, tot) \<Rightarrow>
                                (let d1 = d\<lparr>products := reserveStock (products d) validatedProducts\<rparr>;
                                     saleId = generateSaleId (sales d1) now;
                                     newSale =
                                       \<lparr>s_oid = newOid, s_id = saleId,
                                        s_customer = customer, s_branch = branch,
                                        s_products = map (\<lambda>item.
                                            \<lparr>si_product = v_product item, si_quantity = v_quantity item,
                                             sale_price = v_sale_price item, si_total = v_total item\<rparr>)
                                          validatedProducts,
                                        salesDate = dateOrNow (sb_salesDate body) now,
                                        s_total = tot, s_status = Processing\<rparr>
                                 in case saveSale (sales d1) newSale of
                                      Inl e \<Rightarrow> (postSale_catch e, d1)
                                    | Inr ss \<Rightarrow>
                                        (Response 201
                                           ''Sale created successfully and stock has been reserved for processing.'',
                                         d1\<lparr>sales := ss\<rparr>)))))
         | _ \<Rightarrow> (Response 500 ''Server error'', d)))"


text \<open>
  The route puts the middleware \<open>validateProductsForSale\<close> in front of \<open>postSale\<close>. It asks
  \<open>validateProductForSale\<close> about each line (the identifier is valid, the product exists,
  is active and has stock) and then compares the stock with the quantity of that line.
  It answers 400 when some line fails and calls \<open>next\<close> otherwise; the messages are left
  out, \<open>None\<close> stands for \<open>next()\<close>. A body without a list of products is answered 400 here
  and, as an empty list, by \<open>postSale\<close>.
\<close>

definition validateProductForSale :: "(oid \<rightharpoonup> product) \<Rightarrow> idparam \<Rightarrow> product option" where
  "validateProductForSale ps productId =
     (case productId of
        Malformed _ \<Rightarrow> None
      | ObjectId k \<Rightarrow>
          (case ps k of
             None \<Rightarrow> None
           | Some product \<Rightarrow>
               if p_status product \<noteq> Active then None
               else if stock product \<le> 0 then None
               else Some product))"

definition validateProductsForSale :: "(oid \<rightharpoonup> product) \<Rightarrow> sale_line list \<Rightarrow> nat option" where
  "validateProductsForSale ps items =
     (let invalidProducts =
            filter (\<lambda>item.
                case validateProductForSale ps (sl_product item) of
                  None \<Rightarrow> True
                | Some product \<Rightarrow> stock product < sl_quantity item)
              items
      in if invalidProducts \<noteq> [] then Some 400 else None)"

text \<open>\<open>!status || !validStatuses.includes(status)\<close>: the status of the body, if it is one.\<close>

definition validStatus :: "string option \<Rightarrow> sale_status option" where
  "validStatus st =
     (case st of
        None \<Rightarrow> None
      | Some s \<Rightarrow>
          if s = ''processing'' then Some Processing
          else if s = ''completed'' then Some Completed
          else if s = ''cancelled'' then Some Cancelled
          else None)"

fun allowedTransitions :: "sale_status \<Rightarrow> sale_status list" where
  "allowedTransitions Processing = [Completed, Cancelled]"
| "allowedTransitions Completed = []"
| "allowedTransitions Cancelled = []"

fun statusName :: "sale_status \<Rightarrow> string" where
  "statusName Processing = ''processing''"
| "statusName Completed = ''completed''"
| "statusName Cancelled = ''cancelled''"

text \<open>\<open>allowedTransitions[s].join(', ') || 'none'\<close>.\<close>

fun joinComma :: "string list \<Rightarrow> string" where
  "joinComma [] = []"
| "joinComma [x] = x"
| "joinComma (x # y # ys) = x @ '', '' @ joinComma (y # ys)"

definition allowedNames :: "sale_status \<Rightarrow> string" where
  "allowedNames s =
     (if joinComma (map statusName (allowedTransitions s)) = [] then ''none''
      else joinComma (map statusName (allowedTransitions s)))"

fun statusMessages :: "sale_status \<Rightarrow> string" where
  "statusMessages Processing = ''Sale is being processed with stock reserved''"
| "statusMessages Completed = ''Sale completed successfully - stock consumed permanently''"
| "statusMessages Cancelled = ''Sale cancelled - reserved stock has been restored''"

definition findSale :: "sale list \<Rightarrow> oid \<Rightarrow> sale option" where
  "findSale ss k = find (\<lambda>s. s_oid s = k) ss"

text \<open>
  The loop of \<open>updateSaleStatus\<close> that gives the reserved stock back on cancellation; it
  returns from the handler at the first product that is missing.
\<close>

fun restoreStock ::
  "(oid \<rightharpoonup> product) \<Rightarrow> sale_item list \<Rightarrow> response option \<times> (oid \<rightharpoonup> product)" where
  "restoreStock ps [] = (None, ps)"
| "restoreStock ps (item # rest) =
     (case ps (si_product item) of
        None \<Rightarrow> (Some (Response 404 ''Product not found in sale''), ps)
      | Some product \<Rightarrow> restoreStock (incStock ps (si_product item) (si_quantity item)) rest)"

text \<open>
  \<open>updateSaleStatus\<close>. The update also names \<open>completedAt\<close> or \<open>cancelledAt\<close>; the schema
  has no such path, so only the status is stored.
\<close>

definition updateSaleStatus :: "db \<Rightarrow> user \<Rightarrow> idparam \<Rightarrow> string option \<Rightarrow> response \<times> db" where
  "updateSaleStatus d u ident st =
     (if not_promise (checkPermission (roles d) (u_role u) ''update_status_sales'') then
        (Response 403 ''Unauthorized access'', d)
      else
        (case ident of
           Malformed _ \<Rightarrow> (Response 400 ''Invalid sale ID format'', d)
         | ObjectId k \<Rightarrow>
             (case validStatus st of
                None \<Rightarrow>
                  (Response 400 ''Status must be one of: processing, completed, or cancelled'', d)
              | Some status \<Rightarrow>
                  (case findSale (sales d) k of
                     None \<Rightarrow> (Response 404 ''Sale not found'', d)
                   | Some currentSale \<Rightarrow>
                       if s_status currentSale = Completed then
                         (Response 400 ''Cannot change status of a completed sale.'', d)
                       else if s_status currentSale = Cancelled then
                         (Response 400 ''Cannot change status of a cancelled sale.'', d)
                       else if s_status currentSale = status then
                         (Response 400 (''Sale is already in '' @ statusName status @ '' status''), d)
                       else if status \<notin> set (allowedTransitions (s_status currentSale)) then
                         (Response 400 (''Cannot change status from ''
                            @ statusName (s_status currentSale) @ '' to '' @ statusName status
                            @ ''. Allowed transitions from '' @ statusName (s_status currentSale)
                            @ '': '' @ allowedNames (s_status currentSale)), d)
                       else
                         (case (if s_status currentSale = Processing \<and> status = Cancelled
                                then restoreStock (products d) (s_products currentSale)
                                else (None, products d)) of
                            (Some r, ps) \<Rightarrow> (r, d\<lparr>products := ps\<rparr>)
                          | (None, ps) \<Rightarrow>
                              (Response 200 (statusMessages status),
                               d\<lparr>products := ps,
                                 sales := map (\<lambda>s. if s_oid s = k then s\<lparr>s_status := status\<rparr> else s)
                                            (sales d)\<rparr>))))))"

text \<open>The loop of \<open>deleteSale\<close> that gives the reserved stock back.\<close>

fun releaseStock :: "(oid \<rightharpoonup> product) \<Rightarrow> sale_item list \<Rightarrow> (oid \<rightharpoonup> product)" where
  "releaseStock ps [] = ps"
| "releaseStock ps (item # rest) = releaseStock (incStock ps (si_product item) (si_quantity item)) rest"

definition deleteSale :: "db \<Rightarrow> user \<Rightarrow> idparam \<Rightarrow> response \<times> db" where
  "deleteSale d u ident =
     (if not_promise (checkPermission (roles d) (u_role u) ''delete_sales'') then
        (Response 403 ''Unauthorized access'', d)
      else
        (case ident of
           Malformed _ \<Rightarrow> (Response 400 ''Invalid sale ID format'', d)
         | ObjectId k \<Rightarrow>
             (case findSale (sales d) k of
                None \<Rightarrow> (Response 404 ''Sale not found'', d)
              | Some saleToDelete \<Rightarrow>
                  if s_status saleToDelete \<notin> set [Processing, Cancelled] then
                    (Response 400
                       ''Cannot delete sale that is completed. Only processing or cancelled sales can be deleted.'',
                     d)
                  else
                    (let ps = (if s_status saleToDelete = Processing
                               then releaseStock (products d) (s_products saleToDelete)
                               else products d)
                     in (Response 200
                           (''Sale deleted successfully''
                              @ (if s_status saleToDelete = Processing
                                 then '' and reserved stock restored'' else [])),
                         d\<lparr>products := ps, sales := filter (\<lambda>s. s_oid s \<noteq> k) (sales d)\<rparr>)))))"

section \<open>The purchase controller\<close>

text \<open>The body of a request; quantities and prices are integers, as for a sale.\<close>

record purchase_line =
  pl_product :: idparam
  pl_quantity :: int
  pl_purchase_price :: int

record purchase_body =
  pb_products :: "purchase_line list"
  pb_provider :: "idparam option"
  pb_purchase_date :: "string option"

definition validatePurchaseData :: "purchase_body \<Rightarrow> string list" where
  "validatePurchaseData data =
     (if pb_products data = [] then [''At least one product is required''] else [])
     @ (if falsyId (pb_provider data) then [''Provider is required''] else [])
     @ (case pb_provider data of
          Some p \<Rightarrow> if \<not> falsyId (Some p) \<and> \<not> isValid p then [''Invalid provider ID format''] else []
        | None \<Rightarrow> [])
     @ concat (map (\<lambda>(index, item).
          (if \<not> isValid (pl_product item)
           then [''Invalid product at index '' @ String_int (int index)] else [])
          @ (if pl_quantity item \<le> 0
             then [''Invalid quantity at index '' @ String_int (int index) @ ''. Must be a positive integer'']
             else [])
          @ (if pl_purchase_price item \<le> 0
             then [''Invalid purchase price at index '' @ String_int (int index) @ ''. Must be a positive number'']
             else []))
        (enumerate 0 (pb_products data)))
     @ (case pb_purchase_date data of
          Some d \<Rightarrow> if \<not> dateRegex d then [''Invalid date format. Use YYYY-MM-DD or ISO format''] else []
        | None \<Rightarrow> [])"

text \<open>
  How a step of a handler ends: it goes on with a value, it sends a response and returns,
  or it throws.
\<close>

datatype 'a step = Next 'a | Return response | Throw exn

text \<open>
  The loop of \<open>postPurchase\<close>, from index \<open>i\<close> on: each product is looked up, checked and
  its stock incremented before the next line is looked at.
\<close>

fun receiveFrom ::
  "(oid \<rightharpoonup> product) \<Rightarrow> nat \<Rightarrow> purchase_line list \<Rightarrow> purchase_item list \<Rightarrow> int
     \<Rightarrow> (purchase_item list \<times> int) step \<times> (oid \<rightharpoonup> product)" where
  "receiveFrom ps i [] validatedProducts tot = (Next (validatedProducts, tot), ps)"
| "receiveFrom ps i (item # rest) validatedProducts tot =
     (case pl_product item of
        Malformed _ \<Rightarrow> (Throw CastError, ps)
      | ObjectId k \<Rightarrow>
          (case ps k of
             None \<Rightarrow> (Return (Response 404 (''Product not found at index '' @ String_int (int i))), ps)
           | Some foundProduct \<Rightarrow>
               if p_status foundProduct \<noteq> Active then
                 (Return (Response 400 (''Cannot use inactive product at index '' @ String_int (int i))), ps)
               else
                 (let itemTotal = mulNumber (pl_purchase_price item) (pl_quantity item)
                  in case incrementStock foundProduct (pl_quantity item) of
                       Inl e \<Rightarrow> (Throw e, ps)
                     | Inr saved \<Rightarrow>
                         receiveFrom (ps(k \<mapsto> saved)) (i + 1) rest
                           (validatedProducts @
                              [\<lparr>pi_product = k, pi_quantity = pl_quantity item,
                                purchase_price = pl_purchase_price item, pi_total = itemTotal\<rparr>])
                           (addNumber tot itemTotal))))"

definition purchaseValid :: "purchase \<Rightarrow> bool" where
  "purchaseValid p =
     (list_all (\<lambda>item. 0 < pi_quantity item \<and> 0 < purchase_price item) (pu_products p)
      \<and> purchase_date p \<noteq> InvalidDate)"

definition savePurchase :: "purchase list \<Rightarrow> purchase \<Rightarrow> exn + purchase list" where
  "savePurchase ps p =
     (if \<not> purchaseValid p then Inl (ValidationError ''Purchase validation failed'')
      else if pu_oid p \<in> set (map pu_oid ps) then Inl (DuplicateKey ''_id'')
      else if pu_id p \<in> set (map pu_id ps) then Inl (DuplicateKey ''id'')
      else Inr (ps @ [p]))"

definition postPurchase_catch :: "exn \<Rightarrow> response" where
  "postPurchase_catch e =
     (if e = DuplicateKey ''id'' then Response 409 ''Purchase ID conflict, please try again''
      else Response 500 ''Server error'')"

definition postPurchase :: "db \<Rightarrow> int \<Rightarrow> oid \<Rightarrow> user \<Rightarrow> purchase_body \<Rightarrow> response \<times> db" where
  "postPurchase d now newOid u body =
     (if not_promise (checkPermission (roles d) (u_role u) ''create_purchases'') then
        (Response 403 ''Unauthorized access'', d)
      else if validatePurchaseData body \<noteq> [] then (Response 400 ''Validation error'', d)
      else
        (case pb_provider body of
           Some (ObjectId provider) \<Rightarrow>
             (case providers d provider of
                None \<Rightarrow> (Response 404 ''Provider not found'', d)
              | Some existingProvider \<Rightarrow>
                  if pr_status existingProvider \<noteq> Active then
                    (Response 400 ''Cannot use inactive provider'', d)
                  else
                    (case receiveFrom (products d) 0 (pb_products body) [] 0 of
                       (Return r, ps) \<Rightarrow> (r, d\<lparr>products := ps\<rparr>)
                     | (Throw e, ps) \<Rightarrow> (postPurchase_catch e, d\<lparr>products := ps\<rparr>)
                     | (Next (validatedProducts, tot), ps) \<Rightarrow>
                         (let d1 = d\<lparr>products := ps\<rparr>;
                              purchaseId = generatePurchaseId (purchases d1) now;
                              newPurchase =
                                \<lparr>pu_oid = newOid, pu_id = purchaseId, pu_provider = provider,
                                 pu_products = validatedProducts,
                                 purchase_date = dateOrNow (pb_purchase_date body) now,
                                 pu_total = tot, pu_status = Active,
                                 deactivation_reason = None, deactivated_at = None,
                                 deactivated_by = None, reactivation_reason = None,
                                 reactivated_at = None, reactivated_by = None\<rparr>
                          in case savePurchase (purchases d1) newPurchase of
                               Inl e \<Rightarrow> (postPurchase_catch e, d1)
                             | Inr pus \<Rightarrow>
                                 (Response 201
                                    ''Purchase created successfully and product stock updated'',
                                  d1\<lparr>purchases := pus\<rparr>))))
         | _ \<Rightarrow> (Response 500 ''Server error'', d)))"

definition findPurchase :: "purchase list \<Rightarrow> oid \<Rightarrow> purchase option" where
  "findPurchase ps k = find (\<lambda>p. pu_oid p = k) ps"

text \<open>\<open>!reason || reason.trim().length === 0\<close>.\<close>

definition blankReason :: "string option \<Rightarrow> bool" where
  "blankReason reason =
     (case reason of None \<Rightarrow> True | Some r \<Rightarrow> r = [] \<or> length (trim r) = 0)"

text \<open>The first loop of \<open>deactivatePurchase\<close>: every line against the stock as it stands.\<close>

fun checkReversal :: "(oid \<rightharpoonup> product) \<Rightarrow> purchase_item list \<Rightarrow> response option" where
  "checkReversal ps [] = None"
| "checkReversal ps (item # rest) =
     (case ps (pi_product item) of
        Some product \<Rightarrow>
          if stock product < pi_quantity item then
            Some (Response 400
              (''Cannot deactivate purchase. Product '' @ [CHR 0x27] @ p_name product @ [CHR 0x27]
                 @ '' doesn'' @ [CHR 0x27]
                 @ ''t have sufficient stock to reverse the purchase''))
          else checkReversal ps rest
      | None \<Rightarrow> checkReversal ps rest)"

text \<open>The second loop: \<open>decrementStock\<close> line by line; a throw leaves what was done.\<close>

fun reverseStock ::
  "(oid \<rightharpoonup> product) \<Rightarrow> purchase_item list \<Rightarrow> exn option \<times> (oid \<rightharpoonup> product)" where
  "reverseStock ps [] = (None, ps)"
| "reverseStock ps (item # rest) =
     (case ps (pi_product item) of
        Some product \<Rightarrow>
          (case decrementStock product (pi_quantity item) of
             Inl e \<Rightarrow> (Some e, ps)
           | Inr saved \<Rightarrow> reverseStock (ps(pi_product item \<mapsto> saved)) rest)
      | None \<Rightarrow> reverseStock ps rest)"

definition deactivatePurchase ::
  "db \<Rightarrow> int \<Rightarrow> user \<Rightarrow> idparam \<Rightarrow> string option \<Rightarrow> response \<times> db" where
  "deactivatePurchase d now u ident reason =
     (if not_promise (checkPermission (roles d) (u_role u) ''update_status_purchases'') then
        (Response 403 ''Unauthorized access'', d)
      else
        (case ident of
           Malformed _ \<Rightarrow> (Response 400 ''Invalid purchase ID format'', d)
         | ObjectId k \<Rightarrow>
             if blankReason reason then (Response 400 ''Deactivation reason is required'', d)
             else
               (case findPurchase (purchases d) k of
                  None \<Rightarrow> (Response 404 ''Purchase not found'', d)
                | Some purchase \<Rightarrow>
                    if pu_status purchase \<noteq> Active then
                      (Response 400 ''Purchase is already inactive'', d)
                    else
                      (case checkReversal (products d) (pu_products purchase) of
                         Some r \<Rightarrow> (r, d)
                       | None \<Rightarrow>
                           (case reverseStock (products d) (pu_products purchase) of
                              (Some e, ps) \<Rightarrow> (Response 500 ''Server error'', d\<lparr>products := ps\<rparr>)
                            | (None, ps) \<Rightarrow>
                                (Response 200
                                   ''Purchase deactivated successfully and stock reverted'',
                                 d\<lparr>products := ps,
                                   purchases := map (\<lambda>p.
                                       if pu_oid p = k
                                       then p\<lparr>pu_status := Inactive,
                                              deactivation_reason := map_option trim reason,
                                              deactivated_at := Some now,
                                              deactivated_by := Some (u_id u)\<rparr>
                                       else p)
                                     (purchases d)\<rparr>))))))"

text \<open>The two loops of \<open>reactivatePurchase\<close>.\<close>

fun checkProductsActive :: "(oid \<rightharpoonup> product) \<Rightarrow> purchase_item list \<Rightarrow> response option" where
  "checkProductsActive ps [] = None"
| "checkProductsActive ps (item # rest) =
     (case ps (pi_product item) of
        None \<Rightarrow> Some (Response 400 ''Cannot reactivate purchase. Product is inactive or not found'')
      | Some product \<Rightarrow>
          if p_status product \<noteq> Active then
            Some (Response 400 ''Cannot reactivate purchase. Product is inactive or not found'')
          else checkProductsActive ps rest)"

fun replayStock ::
  "(oid \<rightharpoonup> product) \<Rightarrow> purchase_item list \<Rightarrow> exn option \<times> (oid \<rightharpoonup> product)" where
  "replayStock ps [] = (None, ps)"
| "replayStock ps (item # rest) =
     (case ps (pi_product item) of
        Some product \<Rightarrow>
          (case incrementStock product (pi_quantity item) of
             Inl e \<Rightarrow> (Some e, ps)
           | Inr saved \<Rightarrow> replayStock (ps(pi_product item \<mapsto> saved)) rest)
      | None \<Rightarrow> replayStock ps rest)"

definition reactivatePurchase ::
  "db \<Rightarrow> int \<Rightarrow> user \<Rightarrow> idparam \<Rightarrow> string option \<Rightarrow> response \<times> db" where
  "reactivatePurchase d now u ident reason =
     (if not_promise (checkPermission (roles d) (u_role u) ''reactivate_purchases'') then
        (Response 403 ''Unauthorized access'', d)
      else
        (case ident of
           Malformed _ \<Rightarrow> (Response 400 ''Invalid purchase ID format'', d)
         | ObjectId k \<Rightarrow>
             if blankReason reason then (Response 400 ''Reactivation reason is required'', d)
             else
               (case findPurchase (purchases d) k of
                  None \<Rightarrow> (Response 404 ''Purchase not found'', d)
                | Some purchase \<Rightarrow>
                    if pu_status purchase \<noteq> Inactive then
                      (Response 400 ''Purchase is already active'', d)
                    else if (case providers d (pu_provider purchase) of
                               None \<Rightarrow> True
                             | Some provider \<Rightarrow> pr_status provider \<noteq> Active) then
                      (Response 400
                         ''Cannot reactivate purchase. Provider is inactive or not found'', d)
                    else
                      (case checkProductsActive (products d) (pu_products purchase) of
                         Some r \<Rightarrow> (r, d)
                       | None \<Rightarrow>
                           (case replayStock (products d) (pu_products purchase) of
                              (Some e, ps) \<Rightarrow> (Response 500 ''Server error'', d\<lparr>products := ps\<rparr>)
                            | (None, ps) \<Rightarrow>
                                (Response 200
                                   ''Purchase reactivated successfully and stock restored'',
                                 d\<lparr>products := ps,
                                   purchases := map (\<lambda>p.
                                       if pu_oid p = k
                                       then p\<lparr>pu_status := Active,
                                              reactivation_reason := map_option trim reason,
                                              reactivated_at := Some now,
                                              reactivated_by := Some (u_id u)\<rparr>
                                       else p)
                                     (purchases d)\<rparr>))))))"

definition deletePurchase :: "db \<Rightarrow> user \<Rightarrow> idparam \<Rightarrow> response \<times> db" where
  "deletePurchase d u ident =
     (if not_promise (checkPermission (roles d) (u_role u) ''delete_purchases'') then
        (Response 403 ''Unauthorized access'', d)
      else
        (case ident of
           Malformed _ \<Rightarrow> (Response 400 ''Invalid purchase ID format'', d)
         | ObjectId k \<Rightarrow>
             (case findPurchase (purchases d) k of
                None \<Rightarrow> (Response 404 ''Purchase not found'', d)
              | Some purchaseToDelete \<Rightarrow>
                  if pu_status purchaseToDelete = Active then
                    (Response 400
                       ''Cannot delete an active purchase. Please deactivate it first.'', d)
                  else
                    (Response 200 ''Purchase deleted successfully'',
                     d\<lparr>purchases := filter (\<lambda>p. pu_oid p \<noteq> k) (purchases d)\<rparr>))))"


section \<open>Quantities moved by a purchase\<close>

text \<open>
  Two notions used to state what the loops over the lines of a purchase do: the total
  quantity of the lines that name a given product, and a stock ledger in which the stock
  of every stored product is moved by a given amount.
\<close>

definition purchasedQuantity :: "purchase_item list \<Rightarrow> oid \<Rightarrow> int" where
  "purchasedQuantity items k =
     sum_list (map pi_quantity (filter (\<lambda>item. pi_product item = k) items))"

definition moveStock :: "(oid \<rightharpoonup> product) \<Rightarrow> (oid \<Rightarrow> int) \<Rightarrow> (oid \<rightharpoonup> product)" where
  "moveStock ps f = (\<lambda>k. map_option (\<lambda>p. p\<lparr>stock := stock p + f k\<rparr>) (ps k))"

section \<open>Example states\<close>

text \<open>
  A small database used to run the handlers: a role that may only list sales, a user
  with that role, one customer, one branch, one provider, and two products. The clock
  stands at noon (UTC) on 2026-11-03; product 1 expires a year later, product 2 expired
  the day before.
\<close>

definition exRoles :: "oid \<rightharpoonup> role" where
  "exRoles = [1 \<mapsto> \<lparr>r_name = ''viewer'', isDefault = False, permissions = [''view_sales'']\<rparr>]"

definition exUser :: user where
  "exUser = \<lparr>u_id = 7, u_role = 1\<rparr>"

definition exNow :: int where
  "exNow = 1793707200000"

definition exProducts :: "oid \<rightharpoonup> product" where
  "exProducts =
     [1 \<mapsto> \<lparr>p_name = ''P'', price = 100, expirationDate = 1825243200000, stock = 5,
             p_status = Active\<rparr>,
      2 \<mapsto> \<lparr>p_name = ''Q'', price = 20, expirationDate = 1793620800000, stock = 4,
             p_status = Active\<rparr>]"

definition exDb :: db where
  "exDb =
     \<lparr>products = exProducts,
      customers = [1 \<mapsto> \<lparr>c_status = Active\<rparr>],
      branches = [1 \<mapsto> \<lparr>b_status = BranchActive\<rparr>],
      providers = [1 \<mapsto> \<lparr>pr_status = Active\<rparr>],
      roles = exRoles, sales = [], purchases = []\<rparr>"

definition exSaleBody :: "sale_line list \<Rightarrow> sale_body" where
  "exSaleBody ls =
     \<lparr>sb_products = ls, sb_customer = Some (ObjectId 1), sb_branch = Some (ObjectId 1),
      sb_salesDate = None\<rparr>"

definition exPurchaseBody :: "purchase_line list \<Rightarrow> purchase_body" where
  "exPurchaseBody ls =
     \<lparr>pb_products = ls, pb_provider = Some (ObjectId 1), pb_purchase_date = None\<rparr>"

text \<open>
  The line of three units of product 1, a body that names a date of sale, and the
  database with \<open>2^53 + 4\<close> units of product 1.
\<close>

definition exLineOfThree :: sale_line where
  "exLineOfThree = \<lparr>sl_product = ObjectId 1, sl_quantity = 3\<rparr>"

definition exSaleBodyOn :: "string \<Rightarrow> sale_line list \<Rightarrow> sale_body" where
  "exSaleBodyOn dateString ls = (exSaleBody ls)\<lparr>sb_salesDate := Some dateString\<rparr>"

definition exDbLarge :: db where
  "exDbLarge =
     exDb\<lparr>products :=
            exProducts(1 \<mapsto> \<lparr>p_name = ''P'', price = 100, expirationDate = 1825243200000,
                             stock = 9007199254740996, p_status = Active\<rparr>)\<rparr>"

text \<open>
  A stored sale with the given lines and status (in particular the sale of three units of
  product 1), and a database holding it.
\<close>

definition exSaleWith :: "sale_item list \<Rightarrow> sale_status \<Rightarrow> sale" where
  "exSaleWith items st =
     \<lparr>s_oid = 20, s_id = ''Sa01'', s_customer = 1, s_branch = 1, s_products = items,
      salesDate = TimeValue exNow, s_total = sum_list (map si_total items), s_status = st\<rparr>"

definition exSale :: "sale_status \<Rightarrow> sale" where
  "exSale st =
     exSaleWith [\<lparr>si_product = 1, si_quantity = 3, sale_price = 100, si_total = 300\<rparr>] st"

definition exDbSold :: "sale_status \<Rightarrow> db" where
  "exDbSold st = exDb\<lparr>sales := [exSale st]\<rparr>"

text \<open>Stored sales that differ in their keys only, to exercise the allocator.\<close>

definition exSaleNamed :: "oid \<Rightarrow> string \<Rightarrow> sale" where
  "exSaleNamed k i = (exSale Completed)\<lparr>s_oid := k, s_id := i\<rparr>"

definition exFiveSales :: "sale list" where
  "exFiveSales =
     [exSaleNamed 1 ''Sa01'', exSaleNamed 2 ''Sa02'', exSaleNamed 3 ''Sa03'',
      exSaleNamed 4 ''Sa04'', exSaleNamed 5 ''Sa05'']"

text \<open>An active purchase with the given lines, and a database holding it.\<close>

definition exPurchase :: "purchase_item list \<Rightarrow> purchase" where
  "exPurchase items =
     \<lparr>pu_oid = 30, pu_id = ''Pu01'', pu_provider = 1, pu_products = items,
      purchase_date = TimeValue exNow, pu_total = sum_list (map pi_total items),
      pu_status = Active,
      deactivation_reason = None, deactivated_at = None, deactivated_by = None,
      reactivation_reason = None, reactivated_at = None, reactivated_by = None\<rparr>"

definition exDbBought :: "purchase_item list \<Rightarrow> db" where
  "exDbBought items = exDb\<lparr>purchases := [exPurchase items]\<rparr>"

text \<open>The same database with product 2, which the purchases below do not name, at \<open>-1\<close>.\<close>

definition exDbBoughtOversold :: "purchase_item list \<Rightarrow> db" where
  "exDbBoughtOversold items =
     (exDbBought items)
       \<lparr>products :=
          exProducts(2 \<mapsto> \<lparr>p_name = ''Q'', price = 20, expirationDate = 1793620800000,
                           stock = - 1, p_status = Active\<rparr>)\<rparr>"

text \<open>The same purchase after it was deactivated.\<close>

definition exDbReturned :: "purchase_item list \<Rightarrow> db" where
  "exDbReturned items = exDb\<lparr>purchases := [(exPurchase items)\<lparr>pu_status := Inactive\<rparr>]\<rparr>"

definition exItem :: "oid \<Rightarrow> int \<Rightarrow> purchase_item" where
  "exItem k q = \<lparr>pi_product = k, pi_quantity = q, purchase_price = 50, pi_total = 50 * q\<rparr>"

text \<open>
  A run of requests from the example database: a sale with two lines of 4 units of
  product 1, then a purchase with two lines of 5 units of product 1, then the
  deactivation of that purchase. The states are those that the handlers leave.
\<close>

definition exLineOfFour :: sale_line where
  "exLineOfFour = \<lparr>sl_product = ObjectId 1, sl_quantity = 4\<rparr>"

definition exLineOfFive :: purchase_line where
  "exLineOfFive = \<lparr>pl_product = ObjectId 1, pl_quantity = 5, pl_purchase_price = 50\<rparr>"

definition exOversold :: db where
  "exOversold = snd (postSale exDb exNow 10 exUser (exSaleBody [exLineOfFour, exLineOfFour]))"

definition exRestocked :: db where
  "exRestocked =
     snd (postPurchase exOversold exNow 30 exUser (exPurchaseBody [exLineOfFive, exLineOfFive]))"

definition exHalfReversed :: db where
  "exHalfReversed =
     snd (deactivatePurchase exRestocked exNow exUser (ObjectId 30) (Some ''returned''))"

lemmas ex_defs =
  exRoles_def exUser_def exNow_def exProducts_def exDb_def exSaleBody_def exPurchaseBody_def
  exSaleWith_def exSale_def exDbSold_def exSaleNamed_def exFiveSales_def exPurchase_def
  exDbBought_def exDbBoughtOversold_def exDbReturned_def exItem_def exLineOfThree_def exSaleBodyOn_def exDbLarge_def
  exLineOfFour_def exLineOfFive_def exOversold_def exRestocked_def exHalfReversed_def

section \<open>Properties\<close>

subsection \<open>The permission test of the handlers\<close>

lemma not_promise_False [simp]: "\<not> not_promise p"
  by (simp add: not_promise_def)

subsection \<open>Digits and numeric strings\<close>



text \<open>
  A byte from 33 to 127 is no white space and ends no white space of two or three bytes:
  a string that begins and ends with such a byte is what \<open>trim\<close> returns for it.
\<close>

lemma isDigit_plain: "isDigit c \<Longrightarrow> 33 \<le> (of_char c :: nat) \<and> (of_char c :: nat) < 128"
  by (simp add: isDigit_def)

lemma spaceLength_plain:
  assumes "33 \<le> (of_char c :: nat)" and "(of_char c :: nat) < 128"
  shows "spaceLength (c # cs) = 0"
  using assms
  by (auto simp: spaceLength_def isSpace1_def isSpace2_def isSpace3_def split: list.splits)


lemma trimStart_plain:
  assumes "33 \<le> (of_char c :: nat)" and "(of_char c :: nat) < 128"
  shows "trimStart (c # cs) = c # cs"
  using spaceLength_plain [OF assms, of cs] by (simp add: trimStart.simps [of "c # cs"])











subsection \<open>The order of display ids\<close>

lemma str_lt_irrefl: "\<not> str_lt a a"
  by (induction a) auto

lemma str_lt_trans: "str_lt a b \<Longrightarrow> str_lt b c \<Longrightarrow> str_lt a c"
proof (induction a b arbitrary: c rule: str_lt.induct)
  case (4 x xs y ys)
  then show ?case by (cases c) (auto split: if_splits)
qed (auto elim: str_lt.elims)

lemma str_lt_total: "\<not> str_lt a b \<Longrightarrow> \<not> str_lt b a \<Longrightarrow> a = b"
  by (induction a b rule: str_lt.induct) (auto split: if_splits)

lemma lastId_Nil: "lastId ids = None \<longleftrightarrow> ids = []"
  by (cases ids) (auto split: option.splits)

lemma lastId_greatest:
  "lastId ids = Some m \<Longrightarrow> m \<in> set ids \<and> (\<forall>x\<in>set ids. \<not> str_lt m x)"
proof (induction ids arbitrary: m)
  case Nil
  then show ?case by simp
next
  case (Cons x xs)
  show ?case
  proof (cases "lastId xs")
    case None
    then have "xs = []" by (simp add: lastId_Nil)
    then show ?thesis using Cons.prems by (simp add: str_lt_irrefl)
  next
    case (Some m')
    then have IH: "m' \<in> set xs" "\<forall>y\<in>set xs. \<not> str_lt m' y"
      using Cons.IH by auto
    show ?thesis
    proof (cases "str_lt x m'")
      case True
      then have "m = m'" using Cons.prems Some by simp
      moreover have "\<not> str_lt m' x"
        using True str_lt_trans str_lt_irrefl by blast
      ultimately show ?thesis using IH by simp
    next
      case False
      then have m: "m = x" using Cons.prems Some by simp
      have "\<not> str_lt x y" if "y \<in> set xs" for y
      proof
        assume xy: "str_lt x y"
        have "\<not> str_lt m' y" using IH that by blast
        then have "y = m' \<or> str_lt y m'" using str_lt_total by blast
        then show False using xy False str_lt_trans by blast
      qed
      then show ?thesis using m by (simp add: str_lt_irrefl)
    qed
  qed
qed

lemma lastId_the_greatest:
  assumes "m \<in> set ids" and "\<forall>x\<in>set ids. \<not> str_lt m x"
  shows "lastId ids = Some m"
proof -
  obtain m' where m': "lastId ids = Some m'"
    using assms(1) lastId_Nil [of ids] by (cases "lastId ids") auto
  then have "m' \<in> set ids" "\<forall>x\<in>set ids. \<not> str_lt m' x"
    using lastId_greatest by blast+
  then have "m' = m" using assms str_lt_total by blast
  then show ?thesis using m' by simp
qed


subsection \<open>The allocator\<close>

lemma parseInt_two_digits:
  assumes "isDigit c1" and "isDigit c2"
  shows "parseInt [c1, c2] = Some (int (10 * digitVal c1 + digitVal c2))"
proof -
  have "c1 \<noteq> CHR ''-''" "c1 \<noteq> CHR ''+''" using assms(1) by (auto simp: isDigit_def)
  then show ?thesis
    using assms isDigit_plain [OF assms(1)]
    by (simp add: parseInt_def trimStart_plain digitsValue_def Let_def)
qed

lemma two_digits: 
  assumes "n < 100"
  shows "padStart 2 CHR ''0'' (String_int (int n)) = [digitChar (n div 10), digitChar (n mod 10)]"
proof (cases "n < 10")
  case True
  then show ?thesis
    by (simp add: String_int_def decimalDigits.simps [of "int n"] padStart_def digitChar_def)
next
  case False
  then have a: "int n div 10 < 10" "\<not> int n < 10" using assms by auto
  have b: "nat (int n div 10) = n div 10" "nat (int n mod 10) = n mod 10"
    by (simp_all add: nat_div_distrib nat_mod_distrib)
  show ?thesis
    using a b
    by (simp add: String_int_def decimalDigits.simps [of "int n"] decimalDigits.simps [of "int n div 10"]
        padStart_def)
qed

lemma generateId_next:
  assumes "m \<in> set ids" and "\<forall>x\<in>set ids. \<not> str_lt m x"
    and "m = [p1, p2, c1, c2]" and "isDigit c1" and "isDigit c2"
    and "10 * digitVal c1 + digitVal c2 < 99"
    and "[p1, p2] @ [digitChar ((10 * digitVal c1 + digitVal c2 + 1) div 10),
                     digitChar ((10 * digitVal c1 + digitVal c2 + 1) mod 10)] \<notin> set ids"
  shows "generateId [p1, p2] ids now
         = [p1, p2] @ [digitChar ((10 * digitVal c1 + digitVal c2 + 1) div 10),
                       digitChar ((10 * digitVal c1 + digitVal c2 + 1) mod 10)]"
proof -
  let ?n = "10 * digitVal c1 + digitVal c2"
  have l: "lastId ids = Some m" using assms(1,2) by (rule lastId_the_greatest)
  have ne: "m \<noteq> []" using assms(3) by simp
  have t: "testPrefix2Digits [p1, p2] m"
    using assms(3,4,5) by (simp add: testPrefix2Digits_def)
  have p: "parseInt (drop 2 m) = Some (int ?n)"
    using parseInt_two_digits [OF assms(4,5)] assms(3) by simp
  have c: "candidateId [p1, p2] (int ?n + 1) = [p1, p2] @ [digitChar ((?n + 1) div 10), digitChar ((?n + 1) mod 10)]"
    using two_digits [of "?n + 1"] assms(6) by (simp add: candidateId_def add.commute)
  have s: "scanFrom [p1, p2] ids (int ?n + 1) 0 = Some (candidateId [p1, p2] (int ?n + 1))"
    using assms(7) c by (simp add: scanFrom.simps [of _ _ _ 0])
  show ?thesis
    by (simp only: generateId_def l ne t p s c option.case simp_thms if_False)
qed

text \<open>
  Claim C9. With the display ids \<open>Sa01\<close> to \<open>Sa05\<close> and no other, the allocator returns
  \<open>Sa06\<close>. In general, when the greatest display id (in the order of the sort) is \<open>Sa\<close>
  and two digits of value \<open>NN < 99\<close>, and \<open>Sa\<close> followed by the two digits of \<open>NN + 1\<close> is
  unused, that is what the allocator returns.
\<close>

theorem generateSaleId_next:
  "(set (map s_id ss) = {''Sa01'', ''Sa02'', ''Sa03'', ''Sa04'', ''Sa05''}
      \<longrightarrow> generateSaleId ss now = ''Sa06'')
   \<and> (\<forall>m c1 c2.
         m \<in> set (map s_id ss) \<and> (\<forall>x\<in>set (map s_id ss). \<not> str_lt m x)
         \<and> m = ''Sa'' @ [c1, c2] \<and> isDigit c1 \<and> isDigit c2
         \<and> 10 * digitVal c1 + digitVal c2 < 99
         \<and> ''Sa'' @ [digitChar ((10 * digitVal c1 + digitVal c2 + 1) div 10),
                     digitChar ((10 * digitVal c1 + digitVal c2 + 1) mod 10)]
             \<notin> set (map s_id ss)
         \<longrightarrow> generateSaleId ss now
             = ''Sa'' @ [digitChar ((10 * digitVal c1 + digitVal c2 + 1) div 10),
                         digitChar ((10 * digitVal c1 + digitVal c2 + 1) mod 10)])"
proof (intro conjI impI allI)
  assume ids: "set (map s_id ss) = {''Sa01'', ''Sa02'', ''Sa03'', ''Sa04'', ''Sa05''}"
  have "generateId ''Sa'' (map s_id ss) now
        = ''Sa'' @ [digitChar ((10 * digitVal CHR ''0'' + digitVal CHR ''5'' + 1) div 10),
                    digitChar ((10 * digitVal CHR ''0'' + digitVal CHR ''5'' + 1) mod 10)]"
    by (rule generateId_next [where m = "''Sa05''"])
       (simp_all add: ids isDigit_def digitVal_def digitChar_def del: set_map)
  then show "generateSaleId ss now = ''Sa06''"
    by (simp add: generateSaleId_def digitVal_def digitChar_def)
next
  fix m c1 c2
  assume h: "m \<in> set (map s_id ss) \<and> (\<forall>x\<in>set (map s_id ss). \<not> str_lt m x)
         \<and> m = ''Sa'' @ [c1, c2] \<and> isDigit c1 \<and> isDigit c2
         \<and> 10 * digitVal c1 + digitVal c2 < 99
         \<and> ''Sa'' @ [digitChar ((10 * digitVal c1 + digitVal c2 + 1) div 10),
                     digitChar ((10 * digitVal c1 + digitVal c2 + 1) mod 10)]
             \<notin> set (map s_id ss)"
  have h1: "m \<in> set (map s_id ss)" using h by blast
  have h2: "\<forall>x\<in>set (map s_id ss). \<not> str_lt m x" using h by blast
  have h3: "m = [CHR ''S'', CHR ''a'', c1, c2]" using h by simp
  have h4: "isDigit c1" and h5: "isDigit c2" using h by blast+
  have h6: "10 * digitVal c1 + digitVal c2 < 99" using h by blast
  have h7: "[CHR ''S'', CHR ''a''] @ [digitChar ((10 * digitVal c1 + digitVal c2 + 1) div 10),
              digitChar ((10 * digitVal c1 + digitVal c2 + 1) mod 10)] \<notin> set (map s_id ss)"
    using h by blast
  have "generateId ''Sa'' (map s_id ss) now
        = ''Sa'' @ [digitChar ((10 * digitVal c1 + digitVal c2 + 1) div 10),
                    digitChar ((10 * digitVal c1 + digitVal c2 + 1) mod 10)]"
    by (rule generateId_next [OF h1 h2 h3 h4 h5 h6 h7])
  then show "generateSaleId ss now
             = ''Sa'' @ [digitChar ((10 * digitVal c1 + digitVal c2 + 1) div 10),
                         digitChar ((10 * digitVal c1 + digitVal c2 + 1) mod 10)]"
    by (simp add: generateSaleId_def)
qed

theorem generateSaleId_next_witness:
  "generateSaleId exFiveSales exNow = ''Sa06''
   \<and> generateSaleId [exSaleNamed 1 ''Sa41'', exSaleNamed 2 ''Sa07''] exNow = ''Sa42''"
proof
  show "generateSaleId exFiveSales exNow = ''Sa06''"
    using generateSaleId_next [of exFiveSales exNow]
    by (auto simp: exFiveSales_def exSaleNamed_def exSale_def exSaleWith_def)
  have "generateSaleId [exSaleNamed 1 ''Sa41'', exSaleNamed 2 ''Sa07''] exNow
        = ''Sa'' @ [digitChar ((10 * digitVal CHR ''4'' + digitVal CHR ''1'' + 1) div 10),
                    digitChar ((10 * digitVal CHR ''4'' + digitVal CHR ''1'' + 1) mod 10)]"
    using generateSaleId_next [of "[exSaleNamed 1 ''Sa41'', exSaleNamed 2 ''Sa07'']" exNow,
        THEN conjunct2, rule_format, of "''Sa41''" "CHR ''4''" "CHR ''1''"]
    by (simp add: exSaleNamed_def exSale_def exSaleWith_def isDigit_def digitVal_def digitChar_def)
  then show "generateSaleId [exSaleNamed 1 ''Sa41'', exSaleNamed 2 ''Sa07''] exNow = ''Sa42''"
    by (simp add: digitVal_def digitChar_def)
qed

subsection \<open>Numbers that a double holds exactly\<close>

lemma roundDouble_exact: "\<bar>x\<bar> \<le> 9007199254740992 \<Longrightarrow> roundDouble x = x"
  by (simp add: roundDouble_def)

lemma finiteNumber_exact: "\<bar>x\<bar> \<le> 9007199254740992 \<Longrightarrow> finiteNumber x"
  by (simp add: finiteNumber_def)

subsection \<open>The life of a sale\<close>










subsection \<open>Sales in a terminal state\<close>

text \<open>
  Claim C4. A sale whose status is completed or cancelled stays as it is: whatever status
  \<open>updateSaleStatus\<close> is asked for (a status of the enumeration, the current one, anything
  else or none), the handler answers 400 and the database, so the status of the sale and
  the stock of every product, is unchanged.
\<close>

theorem updateSaleStatus_terminal_rejected:
  assumes "findSale (sales d) k = Some s"
    and "s_status s = Completed \<or> s_status s = Cancelled"
  shows "res_status (fst (updateSaleStatus d u (ObjectId k) st)) = 400
         \<and> snd (updateSaleStatus d u (ObjectId k) st) = d"
  using assms by (auto simp: updateSaleStatus_def split: option.splits)

theorem updateSaleStatus_terminal_rejected_witness:
  "findSale (sales (exDbSold Completed)) 20 = Some (exSale Completed)
   \<and> s_status (exSale Completed) = Completed
   \<and> res_status (fst (updateSaleStatus (exDbSold Completed) exUser (ObjectId 20) (Some ''cancelled''))) = 400
   \<and> snd (updateSaleStatus (exDbSold Completed) exUser (ObjectId 20) (Some ''cancelled''))
       = exDbSold Completed"
proof -
  have h1: "findSale (sales (exDbSold Completed)) 20 = Some (exSale Completed)"
    by (simp add: findSale_def ex_defs)
  have h2: "s_status (exSale Completed) = Completed \<or> s_status (exSale Completed) = Cancelled"
    by (simp add: ex_defs)
  show ?thesis
    using updateSaleStatus_terminal_rejected [OF h1 h2, of exUser "Some ''cancelled''"] h1
    by (simp add: exSale_def exSaleWith_def)
qed

subsection \<open>The loops over the lines of a purchase\<close>

lemma purchasedQuantity_Nil [simp]: "purchasedQuantity [] k = 0"
  by (simp add: purchasedQuantity_def)

lemma purchasedQuantity_Cons [simp]:
  "purchasedQuantity (item # rest) k
   = (if pi_product item = k then pi_quantity item else 0) + purchasedQuantity rest k"
  by (simp add: purchasedQuantity_def)

lemma purchasedQuantity_nonneg:
  "\<forall>i\<in>set items. 0 < pi_quantity i \<Longrightarrow> 0 \<le> purchasedQuantity items k"
  by (induction items) auto

lemma quantity_le_purchasedQuantity:
  "\<forall>i\<in>set items. 0 < pi_quantity i \<Longrightarrow> item \<in> set items
   \<Longrightarrow> pi_quantity item \<le> purchasedQuantity items (pi_product item)"
proof (induction items)
  case Nil
  then show ?case by simp
next
  case (Cons a rest)
  have "0 \<le> purchasedQuantity rest (pi_product item)"
    using Cons.prems(1) by (intro purchasedQuantity_nonneg) simp
  then show ?case using Cons by auto
qed

lemma moveStock_zero [simp]: "moveStock ps (\<lambda>k. 0) = ps"
  by (auto simp: moveStock_def fun_eq_iff option.map_ident)

lemma checkReversal_passes:
  assumes "\<forall>i\<in>set items. \<forall>p. ps (pi_product i) = Some p \<longrightarrow> pi_quantity i \<le> stock p"
  shows "checkReversal ps items = None"
  using assms by (induction items) (auto split: option.splits)

text \<open>
  When the stock of every product that the lines name covers the total quantity of its
  lines, and is a number up to \<open>2^53\<close>, the second loop takes from it exactly that total.
\<close>

lemma decrementStock_exact:
  assumes "0 < q" and "q \<le> stock p" and "stock p \<le> 9007199254740992"
  shows "decrementStock p q = Inr (p\<lparr>stock := stock p - q\<rparr>)"
proof -
  have "\<bar>stock p - q\<bar> \<le> 9007199254740992" using assms by simp
  then have "subNumber (stock p) q = stock p - q" "finiteNumber (stock p - q)"
    by (simp_all add: subNumber_def roundDouble_exact finiteNumber_exact)
  then show ?thesis
    using assms by (simp add: decrementStock_def saveProduct_def)
qed

lemma reverseStock_all:
  assumes "\<forall>i\<in>set items. 0 < pi_quantity i"
    and "\<forall>i\<in>set items. \<forall>p. ps (pi_product i) = Some p
           \<longrightarrow> purchasedQuantity items (pi_product i) \<le> stock p \<and> stock p \<le> 9007199254740992"
  shows "reverseStock ps items = (None, moveStock ps (\<lambda>k. - purchasedQuantity items k))"
  using assms
proof (induction items arbitrary: ps)
  case Nil
  then show ?case by simp
next
  case (Cons item rest)
  have pos: "\<forall>i\<in>set rest. 0 < pi_quantity i" and q: "0 < pi_quantity item"
    using Cons.prems(1) by simp_all
  have nn: "\<And>k. 0 \<le> purchasedQuantity rest k"
    using pos by (rule purchasedQuantity_nonneg)
  show ?case
  proof (cases "ps (pi_product item)")
    case None
    have "\<forall>i\<in>set rest. \<forall>p. ps (pi_product i) = Some p
            \<longrightarrow> purchasedQuantity rest (pi_product i) \<le> stock p \<and> stock p \<le> 9007199254740992"
    proof (intro ballI allI impI)
      fix i p assume i: "i \<in> set rest" and p: "ps (pi_product i) = Some p"
      have "pi_product item \<noteq> pi_product i" using None p by auto
      moreover have "purchasedQuantity (item # rest) (pi_product i) \<le> stock p
                     \<and> stock p \<le> 9007199254740992"
        using Cons.prems(2) i p by simp
      ultimately show "purchasedQuantity rest (pi_product i) \<le> stock p
                       \<and> stock p \<le> 9007199254740992"
        by simp
    qed
    then have "reverseStock ps rest = (None, moveStock ps (\<lambda>k. - purchasedQuantity rest k))"
      using pos by (intro Cons.IH) 
    moreover have "moveStock ps (\<lambda>k. - purchasedQuantity rest k)
                   = moveStock ps (\<lambda>k. - purchasedQuantity (item # rest) k)"
      using None by (auto simp: moveStock_def fun_eq_iff)
    ultimately show ?thesis using None by simp
  next
    case (Some p)
    let ?saved = "p\<lparr>stock := stock p - pi_quantity item\<rparr>"
    let ?ps' = "ps(pi_product item \<mapsto> ?saved)"
    have le: "pi_quantity item + purchasedQuantity rest (pi_product item) \<le> stock p"
      and up: "stock p \<le> 9007199254740992"
      using Cons.prems(2) Some by simp_all
    have dec: "decrementStock p (pi_quantity item) = Inr ?saved"
      using q le up nn [of "pi_product item"] by (intro decrementStock_exact) simp_all
    have "\<forall>i\<in>set rest. \<forall>p'. ?ps' (pi_product i) = Some p'
            \<longrightarrow> purchasedQuantity rest (pi_product i) \<le> stock p' \<and> stock p' \<le> 9007199254740992"
    proof (intro ballI allI impI)
      fix i p' assume i: "i \<in> set rest" and a: "?ps' (pi_product i) = Some p'"
      show "purchasedQuantity rest (pi_product i) \<le> stock p' \<and> stock p' \<le> 9007199254740992"
      proof (cases "pi_product i = pi_product item")
        case True
        then have "p' = ?saved" using a by simp
        then show ?thesis using True le up q by simp
      next
        case False
        then have "ps (pi_product i) = Some p'" using a by simp
        then have "purchasedQuantity (item # rest) (pi_product i) \<le> stock p'
                   \<and> stock p' \<le> 9007199254740992"
          using Cons.prems(2) i by simp
        then show ?thesis using False by simp
      qed
    qed
    then have "reverseStock ?ps' rest = (None, moveStock ?ps' (\<lambda>k. - purchasedQuantity rest k))"
      using pos by (intro Cons.IH)
    moreover have "moveStock ?ps' (\<lambda>k. - purchasedQuantity rest k)
                   = moveStock ps (\<lambda>k. - purchasedQuantity (item # rest) k)"
      using Some by (auto simp: moveStock_def fun_eq_iff)
    ultimately show ?thesis using Some dec by simp
  qed
qed

lemma findPurchase_oid: "findPurchase ps k = Some pu \<Longrightarrow> pu_oid pu = k"
  by (induction ps) (auto simp: findPurchase_def split: if_splits)

lemma findPurchase_map:
  assumes "findPurchase ps k = Some pu" and "\<And>p. pu_oid (f p) = pu_oid p"
  shows "findPurchase (map (\<lambda>p. if pu_oid p = k then f p else p) ps) k = Some (f pu)"
  using assms by (induction ps) (auto simp: findPurchase_def split: if_splits)

lemma moveStock_None: "ps k = None \<Longrightarrow> moveStock ps f k = None"
  by (simp add: moveStock_def)

lemma deactivatePurchase_ok:
  assumes "findPurchase (purchases d) k = Some pu"
    and "pu_status pu = Active"
    and "\<not> blankReason reason"
    and "\<forall>i\<in>set (pu_products pu). 0 < pi_quantity i"
    and "\<forall>i\<in>set (pu_products pu). \<forall>p. products d (pi_product i) = Some p
           \<longrightarrow> purchasedQuantity (pu_products pu) (pi_product i) \<le> stock p
               \<and> stock p \<le> 9007199254740992"
  shows "deactivatePurchase d now u (ObjectId k) reason
         = (Response 200 ''Purchase deactivated successfully and stock reverted'',
            d\<lparr>products := moveStock (products d) (\<lambda>j. - purchasedQuantity (pu_products pu) j),
              purchases := map (\<lambda>p. if pu_oid p = k
                  then p\<lparr>pu_status := Inactive, deactivation_reason := map_option trim reason,
                         deactivated_at := Some now, deactivated_by := Some (u_id u)\<rparr>
                  else p) (purchases d)\<rparr>)"
proof -
  have "\<forall>i\<in>set (pu_products pu). \<forall>p. products d (pi_product i) = Some p \<longrightarrow> pi_quantity i \<le> stock p"
  proof (intro ballI allI impI)
    fix i p assume i: "i \<in> set (pu_products pu)" and p: "products d (pi_product i) = Some p"
    have "pi_quantity i \<le> purchasedQuantity (pu_products pu) (pi_product i)"
      using assms(4) i by (rule quantity_le_purchasedQuantity)
    moreover have "purchasedQuantity (pu_products pu) (pi_product i) \<le> stock p"
      using assms(5) i p by blast
    ultimately show "pi_quantity i \<le> stock p" by simp
  qed
  then have chk: "checkReversal (products d) (pu_products pu) = None"
    by (rule checkReversal_passes)
  have rev: "reverseStock (products d) (pu_products pu)
             = (None, moveStock (products d) (\<lambda>j. - purchasedQuantity (pu_products pu) j))"
    using assms(4,5) by (rule reverseStock_all)
  show ?thesis
    using assms(1,2,3) chk rev by (simp add: deactivatePurchase_def)
qed

subsection \<open>Deactivating a purchase\<close>

lemma checkReversal_insufficient:
  assumes "item \<in> set items" and "ps (pi_product item) = Some p" and "stock p < pi_quantity item"
  shows "\<exists>m. checkReversal ps items = Some (Response 400 m)"
  using assms by (induction items) (auto split: option.splits)

text \<open>
  Claim C3. When some line of an active purchase asks for more than the current stock of
  its product, \<open>deactivatePurchase\<close> with a reason that is not blank answers 400 and leaves
  the database as it was: no stock is moved and the purchase stays active. Nothing is
  assumed about the other lines, which may name the same product again.
\<close>

theorem deactivatePurchase_insufficient_rejected:
  assumes "findPurchase (purchases d) k = Some pu"
    and "pu_status pu = Active"
    and "\<not> blankReason reason"
    and "item \<in> set (pu_products pu)"
    and "products d (pi_product item) = Some p"
    and "stock p < pi_quantity item"
  shows "res_status (fst (deactivatePurchase d now u (ObjectId k) reason)) = 400
         \<and> snd (deactivatePurchase d now u (ObjectId k) reason) = d"
proof -
  obtain m where "checkReversal (products d) (pu_products pu) = Some (Response 400 m)"
    using checkReversal_insufficient [of item "pu_products pu" "products d" p] assms(4,5,6)
    by blast
  then show ?thesis
    using assms(1,2,3) by (simp add: deactivatePurchase_def)
qed

theorem deactivatePurchase_insufficient_rejected_witness:
  "findPurchase (purchases (exDbBought [exItem 2 1, exItem 1 8, exItem 1 2])) 30
     = Some (exPurchase [exItem 2 1, exItem 1 8, exItem 1 2])
   \<and> \<not> blankReason (Some ''returned to provider'')
   \<and> map_option stock (products (exDbBought [exItem 2 1, exItem 1 8, exItem 1 2]) 1) = Some 5
   \<and> res_status (fst (deactivatePurchase (exDbBought [exItem 2 1, exItem 1 8, exItem 1 2]) exNow
          exUser (ObjectId 30) (Some ''returned to provider''))) = 400
   \<and> snd (deactivatePurchase (exDbBought [exItem 2 1, exItem 1 8, exItem 1 2]) exNow
          exUser (ObjectId 30) (Some ''returned to provider''))
       = exDbBought [exItem 2 1, exItem 1 8, exItem 1 2]"
proof -
  let ?items = "[exItem 2 1, exItem 1 8, exItem 1 2]"
  have h1: "findPurchase (purchases (exDbBought ?items)) 30 = Some (exPurchase ?items)"
    by (simp add: findPurchase_def exDbBought_def exPurchase_def)
  have h2: "pu_status (exPurchase ?items) = Active"
    by (simp add: exPurchase_def)
  have h3: "\<not> blankReason (Some ''returned to provider'')"
    by code_simp
  have h4: "exItem 1 8 \<in> set (pu_products (exPurchase ?items))"
    by (simp add: exPurchase_def)
  have h5: "products (exDbBought ?items) (pi_product (exItem 1 8))
              = Some \<lparr>p_name = ''P'', price = 100, expirationDate = 1825243200000, stock = 5,
                      p_status = Active\<rparr>"
    by (simp add: ex_defs)
  have h6: "stock \<lparr>p_name = ''P'', price = 100, expirationDate = 1825243200000, stock = 5,
                   p_status = Active\<rparr> < pi_quantity (exItem 1 8)"
    by (simp add: exItem_def)
  show ?thesis
    using deactivatePurchase_insufficient_rejected [OF h1 h2 h3 h4 h5 h6, of exNow exUser] h1 h3 h5
    by (simp add: exItem_def)
qed


text \<open>
  Claim C10, as amended. A line whose product no longer exists does not stop the
  deactivation of an active purchase, provided the stock of every product of the purchase
  that still exists covers the total quantity of the lines that name it and is at most
  \<open>2^53\<close> (the quantities of a stored purchase are positive, as its schema demands): the
  handler answers 200, every stored product loses the total quantity of its lines, the
  missing product stays missing and the purchase is inactive. Nothing is asked of the
  products that the purchase does not name.
\<close>

theorem deactivatePurchase_skips_missing_product:
  assumes "findPurchase (purchases d) k = Some pu"
    and "pu_status pu = Active"
    and "\<not> blankReason reason"
    and "item \<in> set (pu_products pu)"
    and "products d (pi_product item) = None"
    and "\<forall>i\<in>set (pu_products pu). 0 < pi_quantity i"
    and "\<forall>i\<in>set (pu_products pu). \<forall>p. products d (pi_product i) = Some p
           \<longrightarrow> purchasedQuantity (pu_products pu) (pi_product i) \<le> stock p
               \<and> stock p \<le> 9007199254740992"
  shows "case deactivatePurchase d now u (ObjectId k) reason of
           (r, d') \<Rightarrow>
             res_status r = 200
             \<and> products d' = moveStock (products d) (\<lambda>j. - purchasedQuantity (pu_products pu) j)
             \<and> products d' (pi_product item) = None
             \<and> map_option pu_status (findPurchase (purchases d') k) = Some Inactive"
proof -
  have fnd: "findPurchase (map (\<lambda>p. if pu_oid p = k
                 then p\<lparr>pu_status := Inactive, deactivation_reason := map_option trim reason,
                        deactivated_at := Some now, deactivated_by := Some (u_id u)\<rparr>
                 else p) (purchases d)) k
             = Some (pu\<lparr>pu_status := Inactive, deactivation_reason := map_option trim reason,
                        deactivated_at := Some now, deactivated_by := Some (u_id u)\<rparr>)"
    using assms(1) by (intro findPurchase_map) simp_all
  show ?thesis
    unfolding deactivatePurchase_ok [OF assms(1,2,3,6,7)]
    using assms(5) fnd by (simp add: moveStock_None)
qed

theorem deactivatePurchase_skips_missing_product_witness:
  "products (exDbBoughtOversold [exItem 9 1, exItem 1 2]) 9 = None
   \<and> map_option stock (products (exDbBoughtOversold [exItem 9 1, exItem 1 2]) 2) = Some (- 1)
   \<and> (case deactivatePurchase (exDbBoughtOversold [exItem 9 1, exItem 1 2]) exNow exUser
              (ObjectId 30) (Some ''returned'') of
         (r, d') \<Rightarrow>
           res_status r = 200
           \<and> map_option stock (products d' 1) = Some 3
           \<and> map_option stock (products d' 2) = Some (- 1)
           \<and> products d' 9 = None
           \<and> map_option pu_status (findPurchase (purchases d') 30) = Some Inactive)"
proof -
  let ?items = "[exItem 9 1, exItem 1 2]"
  let ?d = "exDbBoughtOversold ?items"
  have h1: "findPurchase (purchases ?d) 30 = Some (exPurchase ?items)"
    by (simp add: findPurchase_def exDbBoughtOversold_def exDbBought_def exPurchase_def)
  have h2: "pu_status (exPurchase ?items) = Active"
    by (simp add: exPurchase_def)
  have h3: "\<not> blankReason (Some ''returned'')"
    by code_simp
  have h4: "exItem 9 1 \<in> set (pu_products (exPurchase ?items))"
    by (simp add: exPurchase_def)
  have h5: "products ?d (pi_product (exItem 9 1)) = None"
    by (simp add: ex_defs)
  have h6: "\<forall>i\<in>set (pu_products (exPurchase ?items)). 0 < pi_quantity i"
    by (simp add: exPurchase_def exItem_def)
  have h7: "\<forall>i\<in>set (pu_products (exPurchase ?items)).
              \<forall>p. products ?d (pi_product i) = Some p
                \<longrightarrow> purchasedQuantity (pu_products (exPurchase ?items)) (pi_product i) \<le> stock p
                    \<and> stock p \<le> 9007199254740992"
    by (auto simp: ex_defs split: if_splits)
  have s: "map_option stock
             (moveStock (products ?d)
                (\<lambda>j. - purchasedQuantity (pu_products (exPurchase ?items)) j) 1) = Some 3"
    "map_option stock
             (moveStock (products ?d)
                (\<lambda>j. - purchasedQuantity (pu_products (exPurchase ?items)) j) 2) = Some (- 1)"
    "map_option stock (products ?d 2) = Some (- 1)"
    by (simp_all add: moveStock_def ex_defs)
  show ?thesis
    using deactivatePurchase_skips_missing_product [OF h1 h2 h3 h4 h5 h6 h7, of exNow exUser] h5 s
    by (auto simp: exItem_def split: prod.splits)
qed

text \<open>
  The claim as it was written promises success for every active purchase with a missing
  product. With a second line of 8 units of product 1, whose stock is 5, the handler
  answers 400, the purchase stays active and no stock moves.
\<close>

theorem deactivatePurchase_missing_product_counterexample:
  "map pu_status (purchases (exDbBought [exItem 9 1, exItem 1 8])) = [Active]
   \<and> map pi_product (concat (map pu_products (purchases (exDbBought [exItem 9 1, exItem 1 8]))))
       = [9, 1]
   \<and> products (exDbBought [exItem 9 1, exItem 1 8]) 9 = None
   \<and> \<not> blankReason (Some ''returned'')
   \<and> res_status (fst (deactivatePurchase (exDbBought [exItem 9 1, exItem 1 8]) exNow exUser
                         (ObjectId 30) (Some ''returned''))) = 400
   \<and> map pu_status (purchases (snd (deactivatePurchase (exDbBought [exItem 9 1, exItem 1 8])
                         exNow exUser (ObjectId 30) (Some ''returned'')))) = [Active]
   \<and> map_option stock (products (snd (deactivatePurchase (exDbBought [exItem 9 1, exItem 1 8])
                         exNow exUser (ObjectId 30) (Some ''returned''))) 1) = Some 5"
  by code_simp

subsection \<open>Handlers run on the example states\<close>

text \<open>
  Claim C1 (the stock of a product never becomes negative). One request with two lines
  of three units of product 1, whose stock is 5: each line passes the availability test
  on its own (in the middleware of the route and in the handler), both are taken, the
  handler answers 201 and the stock is \<open>-1\<close>.
\<close>

theorem postSale_repeated_product_negative_stock:
  "map_option stock (products exDb 1) = Some 5
   \<and> validateProductsForSale (products exDb)
         [\<lparr>sl_product = ObjectId 1, sl_quantity = 3\<rparr>,
          \<lparr>sl_product = ObjectId 1, sl_quantity = 3\<rparr>] = None
   \<and> (case postSale exDb exNow 10 exUser
              (exSaleBody [\<lparr>sl_product = ObjectId 1, sl_quantity = 3\<rparr>,
                           \<lparr>sl_product = ObjectId 1, sl_quantity = 3\<rparr>]) of
         (r, d) \<Rightarrow> res_status r = 201 \<and> map_option stock (products d 1) = Some (- 1))"
  by code_simp

text \<open>
  Claim C5 (a handler that reports a missing entity has changed nothing). A purchase
  request whose second product does not exist is answered 404 after the stock of the
  first product went from 5 to 10; cancelling a sale whose second product no longer
  exists is answered 404 after the stock of the first went from 5 to 8, and the sale
  stays in processing.
\<close>

theorem missing_product_partial_effect:
  "map_option stock (products exDb 1) = Some 5 \<and> products exDb 9 = None
   \<and> (case postPurchase exDb exNow 11 exUser
              (exPurchaseBody [\<lparr>pl_product = ObjectId 1, pl_quantity = 5, pl_purchase_price = 50\<rparr>,
                               \<lparr>pl_product = ObjectId 9, pl_quantity = 1, pl_purchase_price = 50\<rparr>]) of
         (r, d) \<Rightarrow> res_status r = 404 \<and> map_option stock (products d 1) = Some 10
                    \<and> purchases d = [])
   \<and> (case updateSaleStatus
              (exDb\<lparr>sales := [exSaleWith
                 [\<lparr>si_product = 1, si_quantity = 3, sale_price = 100, si_total = 300\<rparr>,
                  \<lparr>si_product = 9, si_quantity = 1, sale_price = 10, si_total = 10\<rparr>] Processing]\<rparr>)
              exUser (ObjectId 20) (Some ''cancelled'') of
         (r, d) \<Rightarrow> res_status r = 404 \<and> map_option stock (products d 1) = Some 8
                    \<and> map s_status (sales d) = [Processing])"
  by code_simp

text \<open>
  Claim C6 (a sale of an expired product is refused). Product 2 expired the day before
  the clock of the example; the middleware of the route lets the request through, and
  selling one unit of it is answered 201, the sale \<open>Sa01\<close> is stored and the stock goes
  from 4 to 3.
\<close>

theorem postSale_expired_product_sold:
  "map_option expirationDate (products exDb 2) = Some 1793620800000
   \<and> (1793620800000 :: int) < exNow
   \<and> toISODate 1793620800000 = ''2026-11-02''
   \<and> validateProductsForSale (products exDb) [\<lparr>sl_product = ObjectId 2, sl_quantity = 1\<rparr>] = None
   \<and> (case postSale exDb exNow 10 exUser
              (exSaleBody [\<lparr>sl_product = ObjectId 2, sl_quantity = 1\<rparr>]) of
         (r, d) \<Rightarrow> res_status r = 201 \<and> map_option stock (products d 2) = Some 3
                    \<and> map s_id (sales d) = [''Sa01''])"
  by code_simp

text \<open>
  Claim C8 (deactivating and then reactivating a purchase leaves every stock as the
  creation of the purchase left it). A run of the handlers from the example database. A
  sale with two lines of 4 units of product 1, whose stock is 5, passes the middleware of
  the route, is answered 201 and leaves the stock at \<open>-3\<close>. A purchase with two lines of 5
  units of product 1 is then answered 201 and leaves the stock at 7. Each line passes the
  first loop of \<open>deactivatePurchase\<close> on its own; the second loop takes 5 and throws at the
  second line, the handler answers 500, the stock is 2 and the purchase is still active.
  \<open>reactivatePurchase\<close> answers 400 and the stock stays at 2.
\<close>

theorem purchase_round_trip_partial_reversal:
  "map_option stock (products exDb 1) = Some 5
   \<and> validateProductsForSale (products exDb) [exLineOfFour, exLineOfFour] = None
   \<and> res_status (fst (postSale exDb exNow 10 exUser (exSaleBody [exLineOfFour, exLineOfFour])))
       = 201
   \<and> map_option stock (products exOversold 1) = Some (- 3)
   \<and> res_status (fst (postPurchase exOversold exNow 30 exUser
                         (exPurchaseBody [exLineOfFive, exLineOfFive]))) = 201
   \<and> map_option stock (products exRestocked 1) = Some 7
   \<and> map pu_oid (purchases exRestocked) = [30]
   \<and> map pu_products (purchases exRestocked) = [[exItem 1 5, exItem 1 5]]
   \<and> map pu_status (purchases exRestocked) = [Active]
   \<and> map_option pr_status (providers exRestocked 1) = Some Active
   \<and> map_option p_status (products exRestocked 1) = Some Active
   \<and> \<not> blankReason (Some ''returned'')
   \<and> res_status (fst (deactivatePurchase exRestocked exNow exUser (ObjectId 30)
                         (Some ''returned''))) = 500
   \<and> map_option stock (products exHalfReversed 1) = Some 2
   \<and> map pu_status (purchases exHalfReversed) = [Active]
   \<and> \<not> blankReason (Some ''received again'')
   \<and> res_status (fst (reactivatePurchase exHalfReversed exNow exUser (ObjectId 30)
                         (Some ''received again''))) = 400
   \<and> map_option stock
        (products (snd (reactivatePurchase exHalfReversed exNow exUser (ObjectId 30)
                          (Some ''received again''))) 1) = Some 2"
  by code_simp

text \<open>
  The answer of a handler is the same whatever role the caller has and whatever the
  collection of roles holds: the test on the promise never takes the 403 branch.
\<close>

lemma handlers_ignore_role:
  "fst (postSale (d\<lparr>roles := rs\<rparr>) now k (u\<lparr>u_role := x\<rparr>) sbody) = fst (postSale d now k u sbody)"
  "fst (updateSaleStatus (d\<lparr>roles := rs\<rparr>) (u\<lparr>u_role := x\<rparr>) i st) = fst (updateSaleStatus d u i st)"
  "fst (deleteSale (d\<lparr>roles := rs\<rparr>) (u\<lparr>u_role := x\<rparr>) i) = fst (deleteSale d u i)"
  "fst (postPurchase (d\<lparr>roles := rs\<rparr>) now k (u\<lparr>u_role := x\<rparr>) pbody) = fst (postPurchase d now k u pbody)"
  "fst (deactivatePurchase (d\<lparr>roles := rs\<rparr>) now (u\<lparr>u_role := x\<rparr>) i reason)
     = fst (deactivatePurchase d now u i reason)"
  "fst (reactivatePurchase (d\<lparr>roles := rs\<rparr>) now (u\<lparr>u_role := x\<rparr>) i reason)
     = fst (reactivatePurchase d now u i reason)"
  "fst (deletePurchase (d\<lparr>roles := rs\<rparr>) (u\<lparr>u_role := x\<rparr>) i) = fst (deletePurchase d u i)"
  by (simp_all add: postSale_def updateSaleStatus_def deleteSale_def postPurchase_def
      deactivatePurchase_def reactivatePurchase_def deletePurchase_def Let_def
      split: option.splits idparam.splits sum.splits prod.splits step.splits)

text \<open>
  Claim C7 (a caller without the permission is answered 403 and nothing is changed). The
  role of the example user has none of the seven permission codes, and each of the seven
  handlers carries the request out.
\<close>

theorem handlers_ignore_missing_permission:
  "\<not> hasPermission (roles exDb) (u_role exUser) ''create_sales''
   \<and> \<not> hasPermission (roles exDb) (u_role exUser) ''update_status_sales''
   \<and> \<not> hasPermission (roles exDb) (u_role exUser) ''delete_sales''
   \<and> \<not> hasPermission (roles exDb) (u_role exUser) ''create_purchases''
   \<and> \<not> hasPermission (roles exDb) (u_role exUser) ''update_status_purchases''
   \<and> \<not> hasPermission (roles exDb) (u_role exUser) ''reactivate_purchases''
   \<and> \<not> hasPermission (roles exDb) (u_role exUser) ''delete_purchases''
   \<and> (case postSale exDb exNow 10 exUser
              (exSaleBody [\<lparr>sl_product = ObjectId 1, sl_quantity = 1\<rparr>]) of
         (r, d) \<Rightarrow> res_status r = 201 \<and> map_option stock (products d 1) = Some 4
                    \<and> map s_id (sales d) = [''Sa01''])
   \<and> (case updateSaleStatus (exDbSold Processing) exUser (ObjectId 20) (Some ''completed'') of
         (r, d) \<Rightarrow> res_status r = 200 \<and> map s_status (sales d) = [Completed])
   \<and> (case deleteSale (exDbSold Processing) exUser (ObjectId 20) of
         (r, d) \<Rightarrow> res_status r = 200 \<and> sales d = []
                    \<and> map_option stock (products d 1) = Some 8)
   \<and> (case postPurchase exDb exNow 11 exUser
              (exPurchaseBody [\<lparr>pl_product = ObjectId 1, pl_quantity = 5, pl_purchase_price = 50\<rparr>]) of
         (r, d) \<Rightarrow> res_status r = 201 \<and> map_option stock (products d 1) = Some 10
                    \<and> map pu_id (purchases d) = [''Pu01''])
   \<and> (case deactivatePurchase (exDbBought [exItem 1 2]) exNow exUser (ObjectId 30)
              (Some ''returned'') of
         (r, d) \<Rightarrow> res_status r = 200 \<and> map_option stock (products d 1) = Some 3
                    \<and> map pu_status (purchases d) = [Inactive])
   \<and> (case reactivatePurchase (exDbReturned [exItem 1 2]) exNow exUser (ObjectId 30)
              (Some ''received again'') of
         (r, d) \<Rightarrow> res_status r = 200 \<and> map_option stock (products d 1) = Some 7
                    \<and> map pu_status (purchases d) = [Active])
   \<and> (case deletePurchase (exDbReturned [exItem 1 2]) exUser (ObjectId 30) of
         (r, d) \<Rightarrow> res_status r = 200 \<and> purchases d = [])"
  by code_simp

end
